theory Spec2Isabelle
  imports Main "HOL-Library.Sublist" "HOL-Library.Word"
begin

section \<open>Data model of the storyboard generator (src/App.tsx)\<close>

text \<open>
  The interface \<open>Scene\<close> of the application: \<open>{id: string; scene: number; script: string;
  prompt: string}\<close>. The field \<open>id\<close> is written \<open>id'\<close>, since \<open>id\<close> is the identity
  function of HOL. The scene number is a JavaScript number, a double. The model covers
  the non-negative integers below \<open>2^53\<close>, as a word of 53 bits: the numbers that the
  decomposition prompt asks the provider for, that a double holds exactly, and whose text
  in a template literal is their decimal digits. (From \<open>2^53\<close> on a double skips
  integers and prints the shortest digits that identify it, with an exponent from
  \<open>10^21\<close> on; negative numbers and fractions are not scene numbers.) No arithmetic is
  done on scene numbers.
\<close>

record scene =
  id' :: string
  scene :: "53 word"
  script :: string
  prompt :: string

text \<open>The state \<open>characterStyle\<close> holds \<open>{character_description, artistic_style} | null\<close>.\<close>

record character_style =
  character_description :: string
  artistic_style :: string

datatype AspectRatio = Ratio_16_9 | Ratio_9_16

record user =
  name :: string
  email :: string
  picture :: string

text \<open>A browser \<open>File\<close>: only its name and MIME type are recorded.\<close>

datatype js_file = File string string

text \<open>
  The state of the component \<open>App\<close>: one field per \<open>useState\<close> hook and one for the ref
  \<open>stopGenerationRef\<close>. \<open>generatedImages\<close> is a \<open>Record<string, string[]>\<close>, read only
  at scene ids; \<open>generatingSceneIds\<close> is a \<open>Set<string>\<close>. The record is polymorphic in
  the type of the entries of \<open>scenes\<close>: TypeScript declares \<open>Scene[]\<close>, and the handlers
  that read scene fields are modelled at that type, but \<open>handlePdfUpload\<close> stores what
  the provider returned without any check at run time, and is modelled at the type of
  what it stores.
\<close>

record 's app_state =
  user :: "user option"
  scenes :: "'s list"
  isProcessingPdf :: bool
  characterImage :: "js_file option"
  characterStyle :: "character_style option"
  isAnalyzingStyle :: bool
  generatedImages :: "string \<rightharpoonup> string list"
  generatingSceneIds :: "string set"
  error :: "string list option"
  aspectRatio :: AspectRatio
  isGeneratingAll :: bool
  stopGenerationRef :: bool

section \<open>Prompt composition (generateImageForScene, lines 73 to 89)\<close>

definition qualityKeywords :: string where
  "qualityKeywords = ''masterpiece, best quality, high quality, absurdres, ultra-detailed''"

definition newline :: string where
  "newline = [CHR 0x0A]"

definition dquote :: string where
  "dquote = [CHR 0x22]"

text \<open>
  The template literal of lines 80 to 85, with its line breaks and indentation: it starts
  with a line break and ends with a line break and four spaces.
\<close>

definition styledPrompt :: "scene \<Rightarrow> character_style \<Rightarrow> string" where
  "styledPrompt sc cs =
     newline @ ''      In the specific artistic style of '' @ dquote @ artistic_style cs @ dquote
       @ '', generate the following scene:''
     @ newline @ ''      '' @ dquote @ prompt sc @ dquote
     @ newline @ ''      CRITICAL: The main character(s) in this scene MUST strictly conform to this detailed description: ''
       @ dquote @ character_description cs @ dquote @ ''. This is a mandatory requirement.''
     @ newline @ ''      IMPORTANT FOR TEXT: If the scene description includes text, render it with extreme accuracy and detail as specified.''
     @ newline @ ''    ''"

text \<open>The text appended by line 89 to every prompt.\<close>

definition qualitySuffix :: string where
  "qualitySuffix = ''. Technical keywords for quality: '' @ qualityKeywords @ ''.''"

text \<open>The value of the variable \<open>finalPrompt\<close> when the request is sent (line 94).\<close>

definition finalPrompt :: "scene \<Rightarrow> character_style option \<Rightarrow> string" where
  "finalPrompt sc characterStyle' =
     (case characterStyle' of
        None \<Rightarrow> prompt sc
      | Some cs \<Rightarrow> styledPrompt sc cs) @ qualitySuffix"

section \<open>Single-scene generation (generateImageForScene, handleGenerateImage)\<close>

text \<open>
  The text of a scene number in a template literal (\<open>${scene.scene}\<close>): for a
  non-negative integer below \<open>2^53\<close>, its decimal digits, without leading zeros.
\<close>

fun digits :: "nat \<Rightarrow> string" where
  "digits n =
     (if n < 10 then [char_of (48 + n)]
      else digits (n div 10) @ [char_of (48 + n mod 10)])"

declare digits.simps [simp del]

definition number_text :: "53 word \<Rightarrow> string" where
  "number_text n = digits (unat n)"

text \<open>
  What the awaited call \<open>ai.models.generateImages\<close> and the reading of its response
  (lines 92 to 104, all inside the \<open>try\<close>) come to: either the \<open>imageBytes\<close> of the
  returned images, or a thrown value, which is \<open>Some m\<close> for an \<open>Error\<close> with message
  \<open>m\<close> and \<open>None\<close> for a value that is not an \<open>Error\<close>.
\<close>

datatype image_outcome =
    Generated "string list"
  | Rejected "string option"

text \<open>
  Lines 107, 242 to 243 and 286 to 287: the message read from a caught value,
  \<open>e instanceof Error ? e.message : 'An unknown error occurred'\<close>.
\<close>

definition caught_message :: "string option \<Rightarrow> string" where
  "caught_message e = (case e of Some message \<Rightarrow> message | None \<Rightarrow> ''An unknown error occurred'')"

text \<open>The argument of \<open>ai.models.generateImages\<close> (lines 93 to 99).\<close>

record image_request =
  model :: string
  request_prompt :: string
  numberOfImages :: nat
  request_aspectRatio :: AspectRatio
  outputMimeType :: string

definition IMAGEN_MODEL_NAME :: string where
  "IMAGEN_MODEL_NAME = ''imagen-3.0-generate-002''"

definition imageRequest :: "scene \<Rightarrow> AspectRatio \<Rightarrow> character_style option \<Rightarrow> image_request" where
  "imageRequest sc ratio characterStyle' =
     \<lparr>model = IMAGEN_MODEL_NAME,
      request_prompt = finalPrompt sc characterStyle',
      numberOfImages = 1,
      request_aspectRatio = ratio,
      outputMimeType = ''image/jpeg''\<rparr>"

text \<open>Line 103: the URL made from the bytes of a returned image.\<close>

definition dataUrl :: "string \<Rightarrow> string" where
  "dataUrl imageBytes = ''data:image/jpeg;base64,'' @ imageBytes"

text \<open>
  \<open>generateImageForScene\<close>: the request it sends, and its result for the given outcome of
  the call: \<open>Inr\<close> the data URLs, or \<open>Inl\<close> the message of the \<open>Error\<close> thrown at
  line 108.
\<close>

definition generateImageForScene ::
  "scene \<Rightarrow> AspectRatio \<Rightarrow> character_style option \<Rightarrow> image_outcome
     \<Rightarrow> image_request \<times> (string + string list)" where
  "generateImageForScene sc ratio characterStyle' outcome =
     (imageRequest sc ratio characterStyle',
      case outcome of
        Generated images \<Rightarrow> Inr (map dataUrl images)
      | Rejected e \<Rightarrow>
          Inl (''Image generation failed for scene '' @ number_text (scene sc) @ '': ''
               @ caught_message e))"

text \<open>
  What the program does that is visible outside the state: a request to the image
  provider, a timer, and the message logged when a batch stops. (The \<open>console.error\<close>
  diagnostics are not recorded.) An observation pairs such an event with the state of
  the component at that moment; for a request and for a timer this is the state held
  while the call is awaited.
\<close>

datatype event =
    GenerateImages image_request
  | Delay nat
  | ConsoleLog string

type_synonym observation = "event \<times> scene app_state"

definition handleStopGeneration :: "'s app_state \<Rightarrow> 's app_state" where
  "handleStopGeneration st = st\<lparr>stopGenerationRef := True\<rparr>"

text \<open>
  \<open>handleGenerateImage\<close> (lines 296 to 324) is an \<open>async\<close> function with one await: it
  runs up to the call of the provider, and runs its remaining part when that call has
  settled; other handlers can run in between. The two parts are modelled apart.

  The handler is a closure of one render: \<open>scenes\<close>, \<open>aspectRatio\<close> and \<open>characterStyle\<close>
  are read from that render, given as \<open>render\<close>, while the setters act on the current
  state \<open>st\<close>.

  The first part (lines 297 to 301): \<open>None\<close> when no scene has the id and the handler
  returns at once, otherwise the scene found and the state while the call is awaited.
\<close>

definition handleGenerateImage_issue ::
  "scene app_state \<Rightarrow> string \<Rightarrow> scene app_state \<Rightarrow> (scene \<times> scene app_state) option" where
  "handleGenerateImage_issue render sceneId st =
     (case find (\<lambda>s. id' s = sceneId) (scenes render) of
        None \<Rightarrow> None
      | Some sc \<Rightarrow>
          Some (sc, st\<lparr>generatingSceneIds := insert sceneId (generatingSceneIds st),
                        error := None\<rparr>))"

text \<open>
  The second part (lines 309 to 323), for the result of \<open>generateImageForScene\<close>. The
  \<open>catch\<close> of line 310 only ever receives the \<open>Error\<close> of line 108, so its message is
  the one shown.
\<close>

definition handleGenerateImage_settle ::
  "scene \<Rightarrow> string \<Rightarrow> string + string list \<Rightarrow> scene app_state \<Rightarrow> scene app_state" where
  "handleGenerateImage_settle sc sceneId result st =
     (let st' = (case result of
                   Inr urls \<Rightarrow> st\<lparr>generatedImages := (generatedImages st)(sceneId \<mapsto> urls)\<rparr>
                 | Inl message \<Rightarrow>
                     st\<lparr>error := Some [''Failed to generate image for scene ''
                                           @ number_text (scene sc) @ ''.'', message]\<rparr>)
      in st'\<lparr>generatingSceneIds := generatingSceneIds st' - {sceneId}\<rparr>)"

text \<open>
  A whole call during which no other handler runs but, when \<open>stop\<close> holds,
  \<open>handleStopGeneration\<close>. \<open>outcome\<close> is the outcome of the provider call. The
  observation is the request with the state held while it is awaited.
\<close>

definition handleGenerateImage ::
  "scene app_state \<Rightarrow> string \<Rightarrow> image_outcome \<Rightarrow> bool \<Rightarrow> scene app_state
     \<Rightarrow> observation list \<times> scene app_state" where
  "handleGenerateImage render sceneId outcome stop st =
     (case handleGenerateImage_issue render sceneId st of
        None \<Rightarrow> ([], st)
      | Some (sc, st1) \<Rightarrow>
          let (request, result) =
                 generateImageForScene sc (aspectRatio render) (characterStyle render) outcome;
              st2 = (if stop then handleStopGeneration st1 else st1)
          in ([(GenerateImages request, st1)], handleGenerateImage_settle sc sceneId result st2))"

section \<open>Batch generation (handleGenerateAll, lines 332 to 349)\<close>

text \<open>
  What happens around the \<open>i\<close>-th iteration of the loop, outside the program's control:
  the outcome of the provider call, and whether the user presses "Stop Generation"
  (\<open>handleStopGeneration\<close>) while the request is in flight, or during the delay that
  follows it. The runtime is single threaded, so the handler can only run at these two
  awaits. Of the handlers that the page leaves enabled during a batch, it is the only one
  that the loop reads the effect of.
\<close>

record step_env =
  outcome :: image_outcome
  stop_in_flight :: bool
  stop_in_delay :: bool

text \<open>
  The loop of lines 338 to 345 over the rest of \<open>scenesToGenerate\<close>, at iteration \<open>i\<close>.
  \<open>render\<close> is the render that \<open>handleGenerateAll\<close> and its \<open>handleGenerateImage\<close>
  belong to.
\<close>

fun generateLoop ::
  "scene app_state \<Rightarrow> (nat \<Rightarrow> step_env) \<Rightarrow> nat \<Rightarrow> scene list \<Rightarrow> scene app_state
     \<Rightarrow> observation list \<times> scene app_state" where
  "generateLoop render env i [] st = ([], st)"
| "generateLoop render env i (sc # rest) st =
     (if stopGenerationRef st then ([(ConsoleLog ''Generation stopped by user.'', st)], st)
      else
        let (tr1, st1) = handleGenerateImage render (id' sc) (outcome (env i))
                           (stop_in_flight (env i)) st;
            st2 = (if stop_in_delay (env i) then handleStopGeneration st1 else st1);
            (tr2, st3) = generateLoop render env (Suc i) rest st2
        in (tr1 @ [(Delay 1000, st1)] @ tr2, st3))"

text \<open>
  \<open>generatedImages[s.id]\<close> is an array when the entry exists, and an array is truthy, so
  \<open>!generatedImages[s.id]\<close> holds exactly when there is no entry (scene ids are UUIDs,
  never the name of a property that every object inherits).
\<close>

definition scenesToGenerate :: "scene app_state \<Rightarrow> scene list" where
  "scenesToGenerate st = filter (\<lambda>s. generatedImages st (id' s) = None) (scenes st)"

definition handleGenerateAll ::
  "(nat \<Rightarrow> step_env) \<Rightarrow> scene app_state \<Rightarrow> observation list \<times> scene app_state" where
  "handleGenerateAll env st =
     (let st0 = st\<lparr>isGeneratingAll := True, stopGenerationRef := False\<rparr>;
          (tr, st1) = generateLoop st env 0 (scenesToGenerate st) st0
      in (tr, st1\<lparr>isGeneratingAll := False, stopGenerationRef := False\<rparr>))"

section \<open>Editing a prompt (handleUpdateScenePrompt, lines 326 to 330)\<close>

definition handleUpdateScenePrompt ::
  "string \<Rightarrow> string \<Rightarrow> scene app_state \<Rightarrow> scene app_state" where
  "handleUpdateScenePrompt sceneId newPrompt st =
     st\<lparr>scenes := map (\<lambda>s. if id' s = sceneId then s\<lparr>prompt := newPrompt\<rparr> else s) (scenes st)\<rparr>"

section \<open>Script decomposition (handlePdfUpload, lines 199 to 248)\<close>

text \<open>
  A value returned by \<open>JSON.parse\<close>. Numbers are restricted to integers.
\<close>

datatype json =
    JNull
  | JBool bool
  | JNumber int
  | JString string
  | JArray "json list"
  | JObject "(string \<times> json) list"

text \<open>
  What the awaited call \<open>ai.models.generateContent\<close> comes to: the text of the response
  (\<open>response.text\<close>; \<open>JSON.parse\<close> reads a missing text as the text \<open>undefined\<close>), or
  a thrown value, \<open>Some m\<close> for an \<open>Error\<close> with message \<open>m\<close> and \<open>None\<close> otherwise.
  Reading the file (\<open>fileToGenerativePart\<close>) is taken to complete.
\<close>

datatype text_outcome =
    Responded string
  | Failed "string option"

text \<open>
  The object \<open>{...s, id: self.crypto.randomUUID()}\<close> built at lines 235 to 238 from an
  element \<open>s\<close> of the parsed array: the properties of \<open>s\<close>, with \<open>id\<close> set to the new
  identifier (replacing an \<open>id\<close> that \<open>s\<close> may have had).
\<close>

record stored_scene =
  stored_id :: string
  element :: json

text \<open>
  The expression \<open>JSON.parse(response.text).map(...)\<close> once the text is parsed to \<open>v\<close>.
  Only an array has a method \<open>map\<close>: on any other value the engine throws a
  \<open>TypeError\<close>, whose message (the engine's wording) is \<open>typeError v\<close>. \<open>randomUUID i\<close>
  is the \<open>i\<close>-th identifier that \<open>self.crypto.randomUUID()\<close> returns during the call
  (the function is taken to be available, as it is in a secure context).
\<close>

definition parsedScenes :: "(json \<Rightarrow> string) \<Rightarrow> (nat \<Rightarrow> string) \<Rightarrow> json \<Rightarrow> string + stored_scene list" where
  "parsedScenes typeError randomUUID v =
     (case v of
        JArray elements \<Rightarrow>
          Inr (map (\<lambda>(i, s). \<lparr>stored_id = randomUUID i, element = s\<rparr>) (enumerate 0 elements))
      | _ \<Rightarrow> Inl (typeError v))"

text \<open>
  \<open>handlePdfUpload\<close>. \<open>JSON_parse\<close> is the builtin: \<open>Inr\<close> the parsed value, or \<open>Inl\<close>
  the message of the \<open>SyntaxError\<close> it throws.
\<close>

definition handlePdfUpload ::
  "(string \<Rightarrow> string + json) \<Rightarrow> (json \<Rightarrow> string) \<Rightarrow> (nat \<Rightarrow> string) \<Rightarrow> text_outcome
     \<Rightarrow> 's app_state \<Rightarrow> stored_scene app_state" where
  "handlePdfUpload JSON_parse typeError randomUUID response st =
     (let st1 = \<lparr>user = user st, scenes = [], isProcessingPdf = True,
                 characterImage = characterImage st, characterStyle = characterStyle st,
                 isAnalyzingStyle = isAnalyzingStyle st, generatedImages = Map.empty,
                 generatingSceneIds = generatingSceneIds st, error = None,
                 aspectRatio = aspectRatio st, isGeneratingAll = isGeneratingAll st,
                 stopGenerationRef = stopGenerationRef st\<rparr>;
          result = (case response of
                      Failed e \<Rightarrow> Inl (caught_message e)
                    | Responded text \<Rightarrow>
                        (case JSON_parse text of
                           Inl message \<Rightarrow> Inl message
                         | Inr v \<Rightarrow> parsedScenes typeError randomUUID v));
          st2 = (case result of
                   Inr parsed \<Rightarrow> st1\<lparr>scenes := parsed\<rparr>
                 | Inl message \<Rightarrow> st1\<lparr>error := Some [''Failed to process PDF.'', message]\<rparr>)
      in st2\<lparr>isProcessingPdf := False\<rparr>)"



text \<open>
  \<open>as_Scene\<close> reads a stored entry as a scene of the model: when its element has that
  structure and its scene number is one that the model covers.
\<close>

definition as_Scene :: "stored_scene \<Rightarrow> scene option" where
  "as_Scene e =
     (case element e of
        JObject props \<Rightarrow>
          (case (map_of props ''scene'', map_of props ''script'', map_of props ''prompt'') of
             (Some (JNumber n), Some (JString sc), Some (JString p)) \<Rightarrow>
               (if 0 \<le> n \<and> n < 2 ^ 53
                then Some \<lparr>id' = stored_id e, scene = word_of_int n, script = sc, prompt = p\<rparr>
                else None)
           | _ \<Rightarrow> None)
      | _ \<Rightarrow> None)"

section \<open>The error shown by the page (the render of App, lines 363 to 429)\<close>

text \<open>
  What the page shows of the state \<open>error\<close>: the component renders one of three
  branches, for no user (line 363), for an empty scene list (line 413) and for the main
  page (line 427). The first and the last contain \<open>{error && <ErrorModal ... />}\<close>
  (lines 366 and 429); the branch for an empty scene list, with the upload page, has no
  \<open>ErrorModal\<close>.
\<close>

definition ErrorModal :: "'s app_state \<Rightarrow> string list option" where
  "ErrorModal st =
     (if user st = None then error st
      else if scenes st = [] then None
      else error st)"

section \<open>Style analysis (handleCharacterImageUpload, lines 250 to 294)\<close>


section \<open>Decoding the identity token (jwtDecode, handleLoginSuccess)\<close>

datatype js_exception = TypeError | InvalidCharacterError | URIError | SyntaxError

text \<open>\<open>try { body } catch (error) { handler }\<close>, with a thrown exception as \<open>Inl\<close>.\<close>

definition try_catch :: "('e + 'a) \<Rightarrow> ('e \<Rightarrow> 'e + 'a) \<Rightarrow> 'e + 'a" where
  "try_catch body handler = (case body of Inl e \<Rightarrow> handler e | Inr v \<Rightarrow> Inr v)"

text \<open>\<open>String.prototype.split\<close> with a one-character separator.\<close>

fun split_on :: "char \<Rightarrow> string \<Rightarrow> string list" where
  "split_on sep [] = [[]]"
| "split_on sep (c # cs) =
     (if c = sep then [] # split_on sep cs
      else (case split_on sep cs of
              w # ws \<Rightarrow> (c # w) # ws
            | [] \<Rightarrow> [[c]]))"

text \<open>\<open>replace(/-/g, '+')\<close> and \<open>replace(/_/g, '/')\<close>.\<close>

definition replace_all :: "char \<Rightarrow> char \<Rightarrow> string \<Rightarrow> string" where
  "replace_all a b s = map (\<lambda>c. if c = a then b else c) s"

text \<open>\<open>'%' + ('00' + c.charCodeAt(0).toString(16)).slice(-2)\<close> for a character of code below 256.\<close>

definition hex_digit :: "nat \<Rightarrow> char" where
  "hex_digit n = (if n < 10 then char_of (48 + n) else char_of (87 + n))"

definition percent :: "char \<Rightarrow> string" where
  "percent c = [CHR ''%'', hex_digit (of_char c div 16), hex_digit (of_char c mod 16)]"

text \<open>
  The body of the \<open>try\<close> of \<open>jwtDecode\<close> (lines 40 to 50). The builtins \<open>atob\<close>,
  \<open>decodeURIComponent\<close> and \<open>JSON.parse\<close> are parameters: each returns its value or throws.
  The token has no second segment when \<open>split('.')[1]\<close> is \<open>undefined\<close>, and calling
  \<open>replace\<close> on it throws a \<open>TypeError\<close>. The payload is read at the type \<open>T | null\<close>.
\<close>

definition jwtDecode_body ::
  "(string \<Rightarrow> js_exception + string) \<Rightarrow> (string \<Rightarrow> js_exception + string)
     \<Rightarrow> (string \<Rightarrow> js_exception + 'a option) \<Rightarrow> string \<Rightarrow> js_exception + 'a option" where
  "jwtDecode_body atob decodeURIComponent JSON_parse token =
     (case drop 1 (split_on CHR ''.'' token) of
        [] \<Rightarrow> Inl TypeError
      | base64Url # _ \<Rightarrow>
          let base64 = replace_all CHR ''_'' CHR ''/'' (replace_all CHR ''-'' CHR ''+'' base64Url) in
          (case atob base64 of
             Inl e \<Rightarrow> Inl e
           | Inr binary \<Rightarrow>
               (case decodeURIComponent (concat (map percent binary)) of
                  Inl e \<Rightarrow> Inl e
                | Inr jsonPayload \<Rightarrow> JSON_parse jsonPayload)))"

text \<open>\<open>jwtDecode\<close>: \<open>Inr\<close> what it returns, \<open>Inl\<close> an exception that leaves it.\<close>

definition jwtDecode ::
  "(string \<Rightarrow> js_exception + string) \<Rightarrow> (string \<Rightarrow> js_exception + string)
     \<Rightarrow> (string \<Rightarrow> js_exception + 'a option) \<Rightarrow> string \<Rightarrow> js_exception + 'a option" where
  "jwtDecode atob decodeURIComponent JSON_parse token =
     try_catch (jwtDecode_body atob decodeURIComponent JSON_parse token) (\<lambda>error. Inr None)"

text \<open>
  \<open>handleLoginSuccess\<close> (lines 136 to 147), for the token \<open>credentialResponse.credential\<close>;
  the payload type is \<open>{name, email, picture}\<close>, an object, so \<open>if (decoded)\<close> tests for
  \<open>null\<close>.
\<close>

definition handleLoginSuccess ::
  "(string \<Rightarrow> js_exception + string) \<Rightarrow> (string \<Rightarrow> js_exception + string)
     \<Rightarrow> (string \<Rightarrow> js_exception + user option) \<Rightarrow> string \<Rightarrow> 's app_state
     \<Rightarrow> js_exception + 's app_state" where
  "handleLoginSuccess atob decodeURIComponent JSON_parse credential st =
     (case jwtDecode atob decodeURIComponent JSON_parse credential of
        Inl e \<Rightarrow> Inl e
      | Inr None \<Rightarrow> Inr st
      | Inr (Some decoded) \<Rightarrow>
          Inr (st\<lparr>user := Some \<lparr>name = name decoded, email = email decoded,
                                 picture = picture decoded\<rparr>\<rparr>))"

section \<open>Reading a run\<close>

text \<open>The requests sent to the image provider in a run, in the order they were sent.\<close>

fun request_of :: "event \<Rightarrow> image_request option" where
  "request_of (GenerateImages r) = Some r"
| "request_of (Delay ms) = None"
| "request_of (ConsoleLog m) = None"

definition requests :: "observation list \<Rightarrow> image_request list" where
  "requests tr = List.map_filter (request_of \<circ> fst) tr"

text \<open>
  The events of a batch that works through the scenes \<open>cs\<close>: for each scene in turn, the
  request for it, made with the aspect ratio and the style profile of the render, then
  the delay of 1000 ms.
\<close>

definition paced_requests :: "scene app_state \<Rightarrow> scene list \<Rightarrow> event list" where
  "paced_requests render cs =
     concat (map (\<lambda>sc. [GenerateImages (imageRequest sc (aspectRatio render) (characterStyle render)),
                         Delay 1000]) cs)"

text \<open>
  The same run with, in place of each state, the set of scenes being generated when
  nothing else is in flight: the scene of the request while it is awaited, no scene
  during the delay.
\<close>

definition status_trace :: "scene app_state \<Rightarrow> scene list \<Rightarrow> (event \<times> string set) list" where
  "status_trace render cs =
     concat (map (\<lambda>sc. [(GenerateImages (imageRequest sc (aspectRatio render) (characterStyle render)),
                          {id' sc}),
                         (Delay 1000, {})]) cs)"

text \<open>The message that the loop logs when it finds the stop signal set (line 340).\<close>

definition stopped_log :: event where
  "stopped_log = ConsoleLog ''Generation stopped by user.''"

text \<open>
  Reading a text as a number in decimal notation: the value of a nonempty string of
  decimal digits, and nothing for any other string.
\<close>

definition digit_value :: "char \<Rightarrow> nat option" where
  "digit_value c =
     (if 48 \<le> (of_char c :: nat) \<and> (of_char c :: nat) \<le> 57 then Some (of_char c - 48) else None)"

fun read_digits :: "nat \<Rightarrow> string \<Rightarrow> nat option" where
  "read_digits acc [] = Some acc"
| "read_digits acc (c # cs) =
     (case digit_value c of
        None \<Rightarrow> None
      | Some d \<Rightarrow> read_digits (10 * acc + d) cs)"

definition decimal_value :: "string \<Rightarrow> nat option" where
  "decimal_value s = (if s = [] then None else read_digits 0 s)"

text \<open>
  The scenario of the specification's section 8: two scenes \<open>a\<close> and \<open>b\<close>, numbered 1 and
  2, nothing generated yet.
\<close>

definition example_scenes :: "scene list" where
  "example_scenes =
     [\<lparr>id' = ''a'', scene = 1, script = ''A door opens.'', prompt = ''A dark hallway''\<rparr>,
      \<lparr>id' = ''b'', scene = 2, script = ''She runs.'', prompt = ''A street at night''\<rparr>]"

definition example_state :: "scene app_state" where
  "example_state =
     \<lparr>user = None, scenes = example_scenes, isProcessingPdf = False, characterImage = None,
      characterStyle = None, isAnalyzingStyle = False, generatedImages = Map.empty,
      generatingSceneIds = {}, error = None, aspectRatio = Ratio_16_9,
      isGeneratingAll = False, stopGenerationRef = False\<rparr>"

text \<open>
  Stand-ins for the builtins in the examples: \<open>JSON.parse\<close> at the texts \<open>[{}]\<close> and
  \<open>{}\<close> (any other text of the examples is not JSON), the engine's message for a call of
  \<open>map\<close> on a value that has none, and a supply of distinct identifiers.
\<close>

definition example_JSON_parse :: "string \<Rightarrow> string + json" where
  "example_JSON_parse text =
     (if text = ''[{}]'' then Inr (JArray [JObject []])
      else if text = ''{}'' then Inr (JObject [])
      else Inl ''Unexpected end of JSON input'')"

definition example_typeError :: "json \<Rightarrow> string" where
  "example_typeError v = ''JSON.parse(...).map is not a function''"

definition example_randomUUID :: "nat \<Rightarrow> string" where
  "example_randomUUID i = ''uuid-'' @ digits i"

text \<open>
  Environments of a batch for the examples: every call succeeds and nobody stops; the
  first call succeeds and the later ones fail (the scenario of section 8); every call
  succeeds and the user stops during the first delay; and the same with the stop while
  the first request is in flight.
\<close>

definition example_env_success :: "nat \<Rightarrow> step_env" where
  "example_env_success i =
     \<lparr>outcome = Generated [''AAAA''], stop_in_flight = False, stop_in_delay = False\<rparr>"

definition example_env_failure :: "nat \<Rightarrow> step_env" where
  "example_env_failure i =
     \<lparr>outcome = (if i = 0 then Generated [''u1''] else Rejected (Some ''quota exceeded'')),
      stop_in_flight = False, stop_in_delay = False\<rparr>"

definition example_env_stop_in_delay :: "nat \<Rightarrow> step_env" where
  "example_env_stop_in_delay i =
     \<lparr>outcome = Generated [''AAAA''], stop_in_flight = False, stop_in_delay = (i = 0)\<rparr>"

definition example_env_stop_in_flight :: "nat \<Rightarrow> step_env" where
  "example_env_stop_in_flight i =
     \<lparr>outcome = Generated [''AAAA''], stop_in_flight = (i = 0), stop_in_delay = False\<rparr>"

text \<open>The example state when scene \<open>a\<close> already has an image.\<close>

definition example_state_partial :: "scene app_state" where
  "example_state_partial = example_state\<lparr>generatedImages := [''a'' \<mapsto> [''data:image/jpeg;base64,u0'']]\<rparr>"

section \<open>Properties of the prompt composition\<close>

text \<open>
  C5. The composed prompt always ends with the fixed quality-keyword suffix; without a
  style profile it is the scene's prompt followed by that suffix; with a style profile it
  contains the profile's artistic style and character description verbatim. The composed
  prompt is the prompt of the request that \<open>generateImageForScene\<close> sends.
\<close>

theorem finalPrompt_suffix_and_contents:
  "suffix qualitySuffix (finalPrompt sc characterStyle')
   \<and> qualitySuffix = ''. Technical keywords for quality: masterpiece, best quality, high quality, absurdres, ultra-detailed.''
   \<and> finalPrompt sc None = prompt sc @ qualitySuffix
   \<and> sublist (artistic_style cs) (finalPrompt sc (Some cs))
   \<and> sublist (character_description cs) (finalPrompt sc (Some cs))
   \<and> request_prompt (fst (generateImageForScene sc ratio characterStyle' result)) = finalPrompt sc characterStyle'"
proof (intro conjI)
  show "suffix qualitySuffix (finalPrompt sc characterStyle')"
    by (simp add: finalPrompt_def suffix_def)
  show "qualitySuffix = ''. Technical keywords for quality: masterpiece, best quality, high quality, absurdres, ultra-detailed.''"
    by (simp add: qualitySuffix_def qualityKeywords_def)
  show "finalPrompt sc None = prompt sc @ qualitySuffix"
    by (simp add: finalPrompt_def)
  have "finalPrompt sc (Some cs) =
          (newline @ ''      In the specific artistic style of '' @ dquote)
          @ artistic_style cs
          @ (dquote @ '', generate the following scene:''
             @ newline @ ''      '' @ dquote @ prompt sc @ dquote
             @ newline @ ''      CRITICAL: The main character(s) in this scene MUST strictly conform to this detailed description: ''
             @ dquote @ character_description cs @ dquote @ ''. This is a mandatory requirement.''
             @ newline @ ''      IMPORTANT FOR TEXT: If the scene description includes text, render it with extreme accuracy and detail as specified.''
             @ newline @ ''    '' @ qualitySuffix)"
    by (simp add: finalPrompt_def styledPrompt_def)
  then show "sublist (artistic_style cs) (finalPrompt sc (Some cs))"
    by (simp only: sublist_appendI)
  have "finalPrompt sc (Some cs) =
          (newline @ ''      In the specific artistic style of '' @ dquote @ artistic_style cs @ dquote
             @ '', generate the following scene:''
             @ newline @ ''      '' @ dquote @ prompt sc @ dquote
             @ newline @ ''      CRITICAL: The main character(s) in this scene MUST strictly conform to this detailed description: ''
             @ dquote)
          @ character_description cs
          @ (dquote @ ''. This is a mandatory requirement.''
             @ newline @ ''      IMPORTANT FOR TEXT: If the scene description includes text, render it with extreme accuracy and detail as specified.''
             @ newline @ ''    '' @ qualitySuffix)"
    by (simp add: finalPrompt_def styledPrompt_def)
  then show "sublist (character_description cs) (finalPrompt sc (Some cs))"
    by (simp only: sublist_appendI)
  show "request_prompt (fst (generateImageForScene sc ratio characterStyle' result)) = finalPrompt sc characterStyle'"
    by (simp add: generateImageForScene_def imageRequest_def)
qed

section \<open>Properties of the handlers\<close>

lemma requests_handleGenerateImage:
  "find (\<lambda>s. id' s = sceneId) (scenes render) = Some sc \<Longrightarrow>
   requests (fst (handleGenerateImage render sceneId result stop st))
     = [imageRequest sc (aspectRatio render) (characterStyle render)]"
  by (simp add: handleGenerateImage_def handleGenerateImage_issue_def handleGenerateImage_settle_def generateImageForScene_def requests_def List.map_filter_simps Let_def)

text \<open>
  C6. Prompt composition is deterministic. The composed text depends on the scene's prompt
  and the style profile only; and two calls of \<open>handleGenerateImage\<close> for the same scene
  under the same style profile send the same prompt, whatever the rest of the two states,
  the aspect ratios and the outcomes of the calls are.
\<close>

theorem prompt_composition_deterministic:
  "(prompt sc1 = prompt sc2 \<longrightarrow> finalPrompt sc1 cs = finalPrompt sc2 cs)
   \<and> (find (\<lambda>s. id' s = sceneId) (scenes render1) = Some sc
        \<and> find (\<lambda>s. id' s = sceneId) (scenes render2) = Some sc
        \<and> characterStyle render1 = characterStyle render2
      \<longrightarrow> map request_prompt (requests (fst (handleGenerateImage render1 sceneId result1 stop1 st1)))
            = map request_prompt (requests (fst (handleGenerateImage render2 sceneId result2 stop2 st2))))"
proof (intro conjI impI)
  assume "prompt sc1 = prompt sc2"
  then show "finalPrompt sc1 cs = finalPrompt sc2 cs"
    by (simp add: finalPrompt_def styledPrompt_def split: option.splits)
next
  assume a: "find (\<lambda>s. id' s = sceneId) (scenes render1) = Some sc
        \<and> find (\<lambda>s. id' s = sceneId) (scenes render2) = Some sc
        \<and> characterStyle render1 = characterStyle render2"
  then show "map request_prompt (requests (fst (handleGenerateImage render1 sceneId result1 stop1 st1)))
            = map request_prompt (requests (fst (handleGenerateImage render2 sceneId result2 stop2 st2)))"
    by (simp add: requests_handleGenerateImage imageRequest_def)
qed

theorem prompt_composition_deterministic_witness:
  "map request_prompt (requests (fst (handleGenerateImage example_state ''a'' (Generated [''AAAA'']) False example_state)))
   = map request_prompt (requests (fst (handleGenerateImage
        (example_state\<lparr>aspectRatio := Ratio_9_16\<rparr>) ''a'' (Rejected None) True
        (example_state\<lparr>generatingSceneIds := {''b''}\<rparr>))))"
  using prompt_composition_deterministic
    [of _ _ _ "''a''" example_state "\<lparr>id' = ''a'', scene = 1, script = ''A door opens.'', prompt = ''A dark hallway''\<rparr>"
        "example_state\<lparr>aspectRatio := Ratio_9_16\<rparr>"
        "Generated [''AAAA'']" False example_state "Rejected None" True
        "example_state\<lparr>generatingSceneIds := {''b''}\<rparr>"]
  by (simp add: example_state_def example_scenes_def)

text \<open>
  C9. Editing a prompt changes the prompt of the scenes with the given id and nothing
  else: the list keeps its length and order, every scene keeps its id, number and script,
  a scene with another id is unchanged, the generated images, the set of scenes being
  generated and every other part of the state are unchanged; and when no scene has the id,
  the state is unchanged.
\<close>

theorem handleUpdateScenePrompt_frame:
  "length (scenes (handleUpdateScenePrompt sceneId newPrompt st)) = length (scenes st)
   \<and> (\<forall>i < length (scenes st).
         id' (scenes (handleUpdateScenePrompt sceneId newPrompt st) ! i) = id' (scenes st ! i)
       \<and> scene (scenes (handleUpdateScenePrompt sceneId newPrompt st) ! i) = scene (scenes st ! i)
       \<and> script (scenes (handleUpdateScenePrompt sceneId newPrompt st) ! i) = script (scenes st ! i)
       \<and> prompt (scenes (handleUpdateScenePrompt sceneId newPrompt st) ! i)
            = (if id' (scenes st ! i) = sceneId then newPrompt else prompt (scenes st ! i))
       \<and> (id' (scenes st ! i) \<noteq> sceneId
            \<longrightarrow> scenes (handleUpdateScenePrompt sceneId newPrompt st) ! i = scenes st ! i))
   \<and> generatedImages (handleUpdateScenePrompt sceneId newPrompt st) = generatedImages st
   \<and> generatingSceneIds (handleUpdateScenePrompt sceneId newPrompt st) = generatingSceneIds st
   \<and> handleUpdateScenePrompt sceneId newPrompt st
        = st\<lparr>scenes := scenes (handleUpdateScenePrompt sceneId newPrompt st)\<rparr>
   \<and> (sceneId \<notin> id' ` set (scenes st) \<longrightarrow> handleUpdateScenePrompt sceneId newPrompt st = st)"
proof -
  have noop: "map (\<lambda>s. if id' s = sceneId then s\<lparr>prompt := newPrompt\<rparr> else s) xs = xs"
    if "sceneId \<notin> id' ` set xs" for xs
    using that by (induction xs) auto
  have unchanged: "sceneId \<notin> id' ` set (scenes st) \<longrightarrow> handleUpdateScenePrompt sceneId newPrompt st = st"
    by (simp add: handleUpdateScenePrompt_def noop)
  have rest: "length (scenes (handleUpdateScenePrompt sceneId newPrompt st)) = length (scenes st)
   \<and> (\<forall>i < length (scenes st).
         id' (scenes (handleUpdateScenePrompt sceneId newPrompt st) ! i) = id' (scenes st ! i)
       \<and> scene (scenes (handleUpdateScenePrompt sceneId newPrompt st) ! i) = scene (scenes st ! i)
       \<and> script (scenes (handleUpdateScenePrompt sceneId newPrompt st) ! i) = script (scenes st ! i)
       \<and> prompt (scenes (handleUpdateScenePrompt sceneId newPrompt st) ! i)
            = (if id' (scenes st ! i) = sceneId then newPrompt else prompt (scenes st ! i))
       \<and> (id' (scenes st ! i) \<noteq> sceneId
            \<longrightarrow> scenes (handleUpdateScenePrompt sceneId newPrompt st) ! i = scenes st ! i))
   \<and> generatedImages (handleUpdateScenePrompt sceneId newPrompt st) = generatedImages st
   \<and> generatingSceneIds (handleUpdateScenePrompt sceneId newPrompt st) = generatingSceneIds st
   \<and> handleUpdateScenePrompt sceneId newPrompt st
        = st\<lparr>scenes := scenes (handleUpdateScenePrompt sceneId newPrompt st)\<rparr>"
    by (simp add: handleUpdateScenePrompt_def)
  from rest unchanged show ?thesis by blast
qed

theorem handleUpdateScenePrompt_frame_witness:
  "scenes (handleUpdateScenePrompt ''b'' ''Rain on a street'' example_state)
     = [\<lparr>id' = ''a'', scene = 1, script = ''A door opens.'', prompt = ''A dark hallway''\<rparr>,
        \<lparr>id' = ''b'', scene = 2, script = ''She runs.'', prompt = ''Rain on a street''\<rparr>]
   \<and> handleUpdateScenePrompt ''c'' ''Rain on a street'' example_state = example_state"
proof -
  have n: "''c'' \<notin> id' ` set (scenes example_state)"
    by (simp add: example_state_def example_scenes_def)
  have len: "length (scenes example_state) = 2"
    by (simp add: example_state_def example_scenes_def)
  note t = handleUpdateScenePrompt_frame [of "''b''" "''Rain on a street''" example_state]
  from t len have l: "length (scenes (handleUpdateScenePrompt ''b'' ''Rain on a street'' example_state)) = 2"
    by simp
  from t len have e0: "scenes (handleUpdateScenePrompt ''b'' ''Rain on a street'' example_state) ! 0
       = scenes example_state ! 0"
    by (simp add: example_state_def example_scenes_def)
  from t len have e1: "prompt (scenes (handleUpdateScenePrompt ''b'' ''Rain on a street'' example_state) ! 1) = ''Rain on a street''
      \<and> id' (scenes (handleUpdateScenePrompt ''b'' ''Rain on a street'' example_state) ! 1) = ''b''
      \<and> scene (scenes (handleUpdateScenePrompt ''b'' ''Rain on a street'' example_state) ! 1) = 2
      \<and> script (scenes (handleUpdateScenePrompt ''b'' ''Rain on a street'' example_state) ! 1) = ''She runs.''"
    by (simp add: example_state_def example_scenes_def)
  have "scenes (handleUpdateScenePrompt ''b'' ''Rain on a street'' example_state)
     = [\<lparr>id' = ''a'', scene = 1, script = ''A door opens.'', prompt = ''A dark hallway''\<rparr>,
        \<lparr>id' = ''b'', scene = 2, script = ''She runs.'', prompt = ''Rain on a street''\<rparr>]"
    using l e0 e1
    by (auto simp: list_eq_iff_nth_eq less_Suc_eq example_state_def example_scenes_def numeral_2_eq_2)
  moreover have "handleUpdateScenePrompt ''c'' ''Rain on a street'' example_state = example_state"
    using handleUpdateScenePrompt_frame [of "''c''" "''Rain on a street''" example_state] n by simp
  ultimately show ?thesis by simp
qed

section \<open>Properties of the script decomposition\<close>






text \<open>
  When every element of the parsed array reads as a scene of the model, every stored
  entry reads as a scene carrying its new identifier.
\<close>

lemma as_Scene_stored_id:
  "as_Scene \<lparr>stored_id = [], element = s\<rparr> \<noteq> None \<Longrightarrow>
   \<exists>sc. as_Scene \<lparr>stored_id = i, element = s\<rparr> = Some sc \<and> id' sc = i"
  by (auto simp: as_Scene_def split: json.splits option.splits if_splits)

lemma parsedScenes_conforming:
  "list_all (\<lambda>s. as_Scene \<lparr>stored_id = [], element = s\<rparr> \<noteq> None) elements \<Longrightarrow>
   list_all (\<lambda>e. \<exists>sc. as_Scene e = Some sc \<and> id' sc = stored_id e)
     (map (\<lambda>(i, s). \<lparr>stored_id = randomUUID i, element = s\<rparr>) (enumerate n elements))"
proof (induction elements arbitrary: n)
  case Nil
  show ?case by simp
next
  case (Cons s elements)
  from Cons.prems have "as_Scene \<lparr>stored_id = [], element = s\<rparr> \<noteq> None"
    by simp
  then have "\<exists>sc. as_Scene \<lparr>stored_id = randomUUID n, element = s\<rparr> = Some sc \<and> id' sc = randomUUID n"
    by (rule as_Scene_stored_id)
  moreover from Cons.prems Cons.IH [of "Suc n"]
  have "list_all (\<lambda>e. \<exists>sc. as_Scene e = Some sc \<and> id' sc = stored_id e)
     (map (\<lambda>(i, s). \<lparr>stored_id = randomUUID i, element = s\<rparr>) (enumerate (Suc n) elements))"
    by simp
  ultimately show ?case by simp
qed

lemma handlePdfUpload_conforming:
  assumes "JSON_parse text = Inr (JArray elements)"
    and "list_all (\<lambda>s. as_Scene \<lparr>stored_id = [], element = s\<rparr> \<noteq> None) elements"
  shows "list_all (\<lambda>e. \<exists>sc. as_Scene e = Some sc \<and> id' sc = stored_id e)
           (scenes (handlePdfUpload JSON_parse typeError randomUUID (Responded text) st))"
  using assms(1) parsedScenes_conforming [OF assms(2), of randomUUID 0]
  by (simp add: handlePdfUpload_def parsedScenes_def)

text \<open>
  An error set by \<open>handlePdfUpload\<close> is not shown to a signed-in user: the scene list is
  empty whenever the handler sets an error, and the page for an empty scene list has no
  \<open>ErrorModal\<close>, unlike the two other pages.
\<close>

lemma handlePdfUpload_error_not_shown:
  assumes "user st \<noteq> None"
    and "error (handlePdfUpload JSON_parse typeError randomUUID response st) \<noteq> None"
  shows "scenes (handlePdfUpload JSON_parse typeError randomUUID response st) = []
       \<and> ErrorModal (handlePdfUpload JSON_parse typeError randomUUID response st) = None"
proof -
  from assms(2) have empty: "scenes (handlePdfUpload JSON_parse typeError randomUUID response st) = []"
    by (auto simp: handlePdfUpload_def Let_def split: text_outcome.splits sum.splits)
  have "user (handlePdfUpload JSON_parse typeError randomUUID response st) = user st"
    by (simp add: handlePdfUpload_def Let_def split: text_outcome.splits sum.splits)
  with assms(1) have "user (handlePdfUpload JSON_parse typeError randomUUID response st) \<noteq> None"
    by (simp only:) simp
  with empty show ?thesis
    by (auto simp: ErrorModal_def)
qed

lemma handlePdfUpload_error_not_shown_example:
  "error (handlePdfUpload example_JSON_parse example_typeError example_randomUUID
            (Failed (Some ''503''))
            (example_state\<lparr>user := Some \<lparr>name = ''Demo User'', email = ''demo@example.com'',
                                             picture = ''demo.svg''\<rparr>\<rparr>))
     = Some [''Failed to process PDF.'', ''503'']
   \<and> ErrorModal (handlePdfUpload example_JSON_parse example_typeError example_randomUUID
            (Failed (Some ''503''))
            (example_state\<lparr>user := Some \<lparr>name = ''Demo User'', email = ''demo@example.com'',
                                             picture = ''demo.svg''\<rparr>\<rparr>)) = None"
  by (simp add: handlePdfUpload_def ErrorModal_def caught_message_def example_state_def)

section \<open>Properties of the style analysis\<close>



section \<open>Properties of the token decoding\<close>

lemma split_on_no_separator: "sep \<notin> set s \<Longrightarrow> split_on sep s = [s]"
  by (induction s) auto

text \<open>
  C10. \<open>jwtDecode\<close> returns for every token, whatever the builtins do: no exception
  leaves it, and an exception thrown in its body makes it return \<open>null\<close>. In particular
  a token without a second segment, a payload that \<open>atob\<close> rejects and a payload that
  \<open>JSON.parse\<close> rejects give \<open>null\<close>. When \<open>jwtDecode\<close> gives \<open>null\<close>,
  \<open>handleLoginSuccess\<close> leaves the state as it is.
\<close>

theorem jwtDecode_total:
  "(\<exists>r. jwtDecode atob decodeURIComponent JSON_parse token = Inr r)
   \<and> (jwtDecode_body atob decodeURIComponent JSON_parse token = Inl e
        \<longrightarrow> jwtDecode atob decodeURIComponent JSON_parse token = Inr None)
   \<and> (CHR ''.'' \<notin> set token \<longrightarrow> jwtDecode atob decodeURIComponent JSON_parse token = Inr None)
   \<and> (split_on CHR ''.'' token = header # base64Url # rest
        \<and> atob (replace_all CHR ''_'' CHR ''/'' (replace_all CHR ''-'' CHR ''+'' base64Url)) = Inl e
        \<longrightarrow> jwtDecode atob decodeURIComponent JSON_parse token = Inr None)
   \<and> (split_on CHR ''.'' token = header # base64Url # rest
        \<and> atob (replace_all CHR ''_'' CHR ''/'' (replace_all CHR ''-'' CHR ''+'' base64Url)) = Inr binary
        \<and> decodeURIComponent (concat (map percent binary)) = Inr jsonPayload
        \<and> JSON_parse jsonPayload = Inl e
        \<longrightarrow> jwtDecode atob decodeURIComponent JSON_parse token = Inr None)
   \<and> (jwtDecode atob decodeURIComponent JSON_parse' credential = Inr None
        \<longrightarrow> handleLoginSuccess atob decodeURIComponent JSON_parse' credential st = Inr st)"
proof (intro conjI impI)
  show "\<exists>r. jwtDecode atob decodeURIComponent JSON_parse token = Inr r"
    by (simp add: jwtDecode_def try_catch_def split: sum.splits)
  show "jwtDecode atob decodeURIComponent JSON_parse token = Inr None"
    if "CHR ''.'' \<notin> set token"
    using that by (simp add: jwtDecode_def try_catch_def jwtDecode_body_def split_on_no_separator)
qed (simp_all add: jwtDecode_def try_catch_def jwtDecode_body_def handleLoginSuccess_def)

theorem jwtDecode_total_witness:
  "jwtDecode (\<lambda>s. Inl InvalidCharacterError) (\<lambda>s. Inr s) (\<lambda>s. Inl SyntaxError) ''no-segments''
     = (Inr None :: js_exception + user option)
   \<and> jwtDecode (\<lambda>s. Inl InvalidCharacterError) (\<lambda>s. Inr s) (\<lambda>s. Inl SyntaxError) ''h.p-_.s''
     = (Inr None :: js_exception + user option)
   \<and> jwtDecode (\<lambda>s. Inr ''{'') (\<lambda>s. Inr ''{'') (\<lambda>s. Inl SyntaxError) ''h.ew.s''
     = (Inr None :: js_exception + user option)
   \<and> handleLoginSuccess (\<lambda>s. Inl InvalidCharacterError) (\<lambda>s. Inr s) (\<lambda>s. Inl SyntaxError)
        ''no-segments'' example_state = Inr example_state"
proof -
  have s1: "CHR ''.'' \<notin> set ''no-segments''"
    by simp
  have s2: "split_on CHR ''.'' ''h.p-_.s'' = [''h'', ''p-_'', ''s'']"
    and s3: "split_on CHR ''.'' ''h.ew.s'' = [''h'', ''ew'', ''s'']"
    by simp_all
  note a = jwtDecode_total
      [of "\<lambda>s. Inl InvalidCharacterError" "\<lambda>s. Inr s" "\<lambda>s. Inl SyntaxError :: js_exception + user option"
          "''no-segments''" _ _ _ _ _ _ "\<lambda>s. Inl SyntaxError" "''no-segments''" example_state]
  note b = jwtDecode_total
      [of "\<lambda>s. Inl InvalidCharacterError" "\<lambda>s. Inr s" "\<lambda>s. Inl SyntaxError :: js_exception + user option"
          "''h.p-_.s''" InvalidCharacterError "''h''" "''p-_''" "[''s'']"]
  note c = jwtDecode_total
      [of "\<lambda>s. Inr ''{''" "\<lambda>s. Inr ''{''" "\<lambda>s. Inl SyntaxError :: js_exception + user option"
          "''h.ew.s''" SyntaxError "''h''" "''ew''" "[''s'']" "''{''" "''{''"]
  from a s1 have 1: "jwtDecode (\<lambda>s. Inl InvalidCharacterError) (\<lambda>s. Inr s) (\<lambda>s. Inl SyntaxError) ''no-segments''
     = (Inr None :: js_exception + user option)"
    and 4: "handleLoginSuccess (\<lambda>s. Inl InvalidCharacterError) (\<lambda>s. Inr s) (\<lambda>s. Inl SyntaxError)
        ''no-segments'' example_state = Inr example_state"
    by blast+
  from b s2 have 2: "jwtDecode (\<lambda>s. Inl InvalidCharacterError) (\<lambda>s. Inr s) (\<lambda>s. Inl SyntaxError) ''h.p-_.s''
     = (Inr None :: js_exception + user option)"
    by blast
  from c s3 have 3: "jwtDecode (\<lambda>s. Inr ''{'') (\<lambda>s. Inr ''{'') (\<lambda>s. Inl SyntaxError) ''h.ew.s''
     = (Inr None :: js_exception + user option)"
    by blast
  from 1 2 3 4 show ?thesis by blast
qed

section \<open>Properties of single-scene and batch generation\<close>

text \<open>A scene of a store with distinct ids is the scene that \<open>find\<close> returns for its id.\<close>

lemma find_by_id:
  "distinct (map id' xs) \<Longrightarrow> sc \<in> set xs \<Longrightarrow> find (\<lambda>s. id' s = id' sc) xs = Some sc"
  by (induction xs) (auto simp: image_iff)

lemma find_scenesToGenerate:
  assumes "distinct (map id' (scenes st))" and "sc \<in> set (scenesToGenerate st)"
  shows "find (\<lambda>s. id' s = id' sc) (scenes st) = Some sc"
  using assms by (simp add: scenesToGenerate_def find_by_id)

lemma handleGenerateImage_observations:
  "find (\<lambda>s. id' s = sceneId) (scenes render) = Some sc \<Longrightarrow>
   fst (handleGenerateImage render sceneId result stop st)
     = [(GenerateImages (imageRequest sc (aspectRatio render) (characterStyle render)),
         st\<lparr>generatingSceneIds := insert sceneId (generatingSceneIds st), error := None\<rparr>)]"
  by (simp add: handleGenerateImage_def handleGenerateImage_issue_def handleGenerateImage_settle_def generateImageForScene_def Let_def)

lemma handleGenerateImage_stop:
  "find (\<lambda>s. id' s = sceneId) (scenes render) = Some sc \<Longrightarrow>
   stopGenerationRef (snd (handleGenerateImage render sceneId result stop st))
     = (stopGenerationRef st \<or> stop)"
  by (simp add: handleGenerateImage_def handleGenerateImage_issue_def handleGenerateImage_settle_def generateImageForScene_def Let_def handleStopGeneration_def
      split: image_outcome.splits)

lemma handleGenerateImage_status:
  "find (\<lambda>s. id' s = sceneId) (scenes render) = Some sc \<Longrightarrow>
   generatingSceneIds (snd (handleGenerateImage render sceneId result stop st))
     = generatingSceneIds st - {sceneId}"
  by (simp add: handleGenerateImage_def handleGenerateImage_issue_def handleGenerateImage_settle_def generateImageForScene_def Let_def handleStopGeneration_def
      split: image_outcome.splits)

lemma handleGenerateImage_images:
  "find (\<lambda>s. id' s = sceneId) (scenes render) = Some sc \<Longrightarrow>
   generatedImages (snd (handleGenerateImage render sceneId result stop st))
     = (case result of
          Generated images \<Rightarrow>
            (generatedImages st)(sceneId \<mapsto> map dataUrl images)
        | Rejected e \<Rightarrow> generatedImages st)"
  by (simp add: handleGenerateImage_def handleGenerateImage_issue_def handleGenerateImage_settle_def generateImageForScene_def Let_def handleStopGeneration_def
      split: image_outcome.splits)

lemma handleGenerateImage_error:
  "find (\<lambda>s. id' s = sceneId) (scenes render) = Some sc \<Longrightarrow>
   error (snd (handleGenerateImage render sceneId result stop st))
     = (case result of
          Generated images \<Rightarrow> None
        | Rejected e \<Rightarrow>
            Some [''Failed to generate image for scene '' @ number_text (scene sc) @ ''.'',
                  ''Image generation failed for scene '' @ number_text (scene sc) @ '': ''
                    @ caught_message e])"
  by (simp add: handleGenerateImage_def handleGenerateImage_issue_def handleGenerateImage_settle_def generateImageForScene_def Let_def handleStopGeneration_def
      split: image_outcome.splits)

lemma handleGenerateImage_isGeneratingAll:
  "isGeneratingAll (snd (handleGenerateImage render sceneId result stop st)) = isGeneratingAll st"
  by (simp add: handleGenerateImage_def handleGenerateImage_issue_def handleGenerateImage_settle_def generateImageForScene_def Let_def handleStopGeneration_def
      split: image_outcome.splits option.splits)

lemma generateLoop_step:
  "\<not> stopGenerationRef st \<Longrightarrow>
   generateLoop render env i (sc # rest) st =
     (fst (handleGenerateImage render (id' sc) (outcome (env i)) (stop_in_flight (env i)) st)
        @ [(Delay 1000, snd (handleGenerateImage render (id' sc) (outcome (env i)) (stop_in_flight (env i)) st))]
        @ fst (generateLoop render env (Suc i) rest
                 (if stop_in_delay (env i)
                  then handleStopGeneration (snd (handleGenerateImage render (id' sc) (outcome (env i)) (stop_in_flight (env i)) st))
                  else snd (handleGenerateImage render (id' sc) (outcome (env i)) (stop_in_flight (env i)) st))),
      snd (generateLoop render env (Suc i) rest
                 (if stop_in_delay (env i)
                  then handleStopGeneration (snd (handleGenerateImage render (id' sc) (outcome (env i)) (stop_in_flight (env i)) st))
                  else snd (handleGenerateImage render (id' sc) (outcome (env i)) (stop_in_flight (env i)) st))))"
  by (simp add: Let_def split: prod.splits)

lemma generateLoop_stopped:
  "stopGenerationRef st \<Longrightarrow> generateLoop render env i (sc # rest) st = ([(stopped_log, st)], st)"
  by (simp add: stopped_log_def)

lemma paced_requests_Cons:
  "paced_requests render (sc # cs) =
     GenerateImages (imageRequest sc (aspectRatio render) (characterStyle render)) # Delay 1000
       # paced_requests render cs"
  by (simp add: paced_requests_def)

lemma paced_requests_Nil: "paced_requests render [] = []"
  by (simp add: paced_requests_def)

text \<open>The events of the loop when no stop is requested before the last iteration.\<close>

lemma generateLoop_events:
  assumes "\<not> stopGenerationRef st"
    and "\<forall>j. Suc j < length cs \<longrightarrow> \<not> stop_in_flight (env (i + j)) \<and> \<not> stop_in_delay (env (i + j))"
    and "\<forall>sc \<in> set cs. find (\<lambda>s. id' s = id' sc) (scenes render) = Some sc"
  shows "map fst (fst (generateLoop render env i cs st)) = paced_requests render cs"
  using assms
proof (induction cs arbitrary: i st)
  case Nil
  show ?case by (simp add: paced_requests_Nil)
next
  case (Cons sc rest)
  let ?h = "handleGenerateImage render (id' sc) (outcome (env i)) (stop_in_flight (env i)) st"
  let ?st2 = "if stop_in_delay (env i) then handleStopGeneration (snd ?h) else snd ?h"
  from Cons.prems(3) have found: "find (\<lambda>s. id' s = id' sc) (scenes render) = Some sc"
    by simp
  show ?case
  proof (cases rest)
    case Nil
    with Cons.prems(1) found show ?thesis
      by (simp add: generateLoop_step handleGenerateImage_observations paced_requests_Cons
          paced_requests_Nil del: generateLoop.simps(2))
  next
    case (Cons sc' rest')
    with Cons.prems(2) have quiet: "\<not> stop_in_flight (env i) \<and> \<not> stop_in_delay (env i)"
      by (metis One_nat_def add.right_neutral length_Cons lessI less_Suc_eq_0_disj list.size(4) not_less_eq zero_less_Suc)
    with Cons.prems(1) found have "\<not> stopGenerationRef ?st2"
      by (simp add: handleGenerateImage_stop)
    moreover from Cons.prems(2)
    have "\<forall>j. Suc j < length rest \<longrightarrow> \<not> stop_in_flight (env (Suc i + j)) \<and> \<not> stop_in_delay (env (Suc i + j))"
      by (metis Suc_less_eq add_Suc_right add_Suc length_Cons)
    moreover from Cons.prems(3)
    have "\<forall>sc \<in> set rest. find (\<lambda>s. id' s = id' sc) (scenes render) = Some sc"
      by simp
    ultimately have "map fst (fst (generateLoop render env (Suc i) rest ?st2)) = paced_requests render rest"
      by (rule Cons.IH)
    with Cons.prems(1) found show ?thesis
      by (simp add: generateLoop_step handleGenerateImage_observations paced_requests_Cons
          del: generateLoop.simps(2))
  qed
qed


lemma handleStopGeneration_stop: "stopGenerationRef (handleStopGeneration st)"
  by (simp add: handleStopGeneration_def)

text \<open>
  The events of the loop when the first stop is requested at iteration \<open>j\<close>, in flight or
  during the delay, and a candidate is left after it.
\<close>

lemma generateLoop_stop_events:
  assumes "\<not> stopGenerationRef st"
    and "\<forall>k<j. \<not> stop_in_flight (env (i + k)) \<and> \<not> stop_in_delay (env (i + k))"
    and "stop_in_flight (env (i + j)) \<or> stop_in_delay (env (i + j))"
    and "Suc j < length cs"
    and "\<forall>sc \<in> set cs. find (\<lambda>s. id' s = id' sc) (scenes render) = Some sc"
  shows "map fst (fst (generateLoop render env i cs st))
           = paced_requests render (take (Suc j) cs) @ [stopped_log]"
  using assms
proof (induction cs arbitrary: i j st)
  case Nil
  then show ?case by simp
next
  case (Cons sc rest)
  let ?h = "handleGenerateImage render (id' sc) (outcome (env i)) (stop_in_flight (env i)) st"
  let ?st2 = "if stop_in_delay (env i) then handleStopGeneration (snd ?h) else snd ?h"
  from Cons.prems(5) have found: "find (\<lambda>s. id' s = id' sc) (scenes render) = Some sc"
    by simp
  show ?case
  proof (cases j)
    case 0
    with Cons.prems(3) found have stopped: "stopGenerationRef ?st2"
      by (auto simp: handleGenerateImage_stop handleStopGeneration_stop)
    from 0 Cons.prems(4) obtain sc' rest' where rest: "rest = sc' # rest'"
      by (cases rest) auto
    from stopped have "generateLoop render env (Suc i) (sc' # rest') ?st2 = ([(stopped_log, ?st2)], ?st2)"
      by (rule generateLoop_stopped)
    with Cons.prems(1) found 0 rest show ?thesis
      by (simp add: generateLoop_step handleGenerateImage_observations paced_requests_Cons
          paced_requests_Nil del: generateLoop.simps(2))
  next
    case (Suc j')
    with Cons.prems(2) have quiet: "\<not> stop_in_flight (env i) \<and> \<not> stop_in_delay (env i)"
      by (metis add.right_neutral zero_less_Suc)
    with Cons.prems(1) found have "\<not> stopGenerationRef ?st2"
      by (simp add: handleGenerateImage_stop)
    moreover from Cons.prems(2) Suc
    have "\<forall>k<j'. \<not> stop_in_flight (env (Suc i + k)) \<and> \<not> stop_in_delay (env (Suc i + k))"
      by (metis Suc_less_eq add_Suc_right add_Suc)
    moreover from Cons.prems(3) Suc
    have "stop_in_flight (env (Suc i + j')) \<or> stop_in_delay (env (Suc i + j'))"
      by simp
    moreover from Cons.prems(4) Suc have "Suc j' < length rest"
      by simp
    moreover from Cons.prems(5)
    have "\<forall>sc \<in> set rest. find (\<lambda>s. id' s = id' sc) (scenes render) = Some sc"
      by simp
    ultimately have "map fst (fst (generateLoop render env (Suc i) rest ?st2))
        = paced_requests render (take (Suc j') rest) @ [stopped_log]"
      by (rule Cons.IH)
    with Cons.prems(1) found Suc show ?thesis
      by (simp add: generateLoop_step handleGenerateImage_observations paced_requests_Cons
          del: generateLoop.simps(2))
  qed
qed

lemma requests_events: "requests tr = List.map_filter request_of (map fst tr)"
  by (induction tr) (simp_all add: requests_def List.map_filter_simps split: option.splits)

lemma map_filter_paced_requests:
  "List.map_filter request_of (paced_requests render cs @ rest)
     = map (\<lambda>sc. imageRequest sc (aspectRatio render) (characterStyle render)) cs
       @ List.map_filter request_of rest"
  by (induction cs) (simp_all add: paced_requests_Cons paced_requests_Nil List.map_filter_simps)

lemma requests_paced:
  "map fst tr = paced_requests render cs \<Longrightarrow>
   requests tr = map (\<lambda>sc. imageRequest sc (aspectRatio render) (characterStyle render)) cs"
  using map_filter_paced_requests [of render cs "[]"]
  by (simp add: requests_events List.map_filter_simps)

lemma requests_paced_stopped:
  "map fst tr = paced_requests render cs @ [stopped_log] \<Longrightarrow>
   requests tr = map (\<lambda>sc. imageRequest sc (aspectRatio render) (characterStyle render)) cs"
  using map_filter_paced_requests [of render cs "[stopped_log]"]
  by (simp add: requests_events List.map_filter_simps stopped_log_def)

lemma stopped_log_not_paced: "stopped_log \<notin> set (paced_requests render cs)"
  by (induction cs) (simp_all add: paced_requests_Cons paced_requests_Nil stopped_log_def)

lemma handleGenerateAll_fst:
  "fst (handleGenerateAll env st)
     = fst (generateLoop st env 0 (scenesToGenerate st)
              (st\<lparr>isGeneratingAll := True, stopGenerationRef := False\<rparr>))"
  by (simp add: handleGenerateAll_def Let_def split: prod.splits)

lemma handleGenerateAll_snd:
  "snd (handleGenerateAll env st)
     = (snd (generateLoop st env 0 (scenesToGenerate st)
              (st\<lparr>isGeneratingAll := True, stopGenerationRef := False\<rparr>)))
         \<lparr>isGeneratingAll := False, stopGenerationRef := False\<rparr>"
  by (simp add: handleGenerateAll_def Let_def split: prod.splits)

text \<open>An entry of \<open>generatedImages\<close> is never removed by the loop.\<close>

lemma handleGenerateImage_images_kept:
  "generatedImages st x \<noteq> None \<Longrightarrow>
   generatedImages (snd (handleGenerateImage render sceneId result stop st)) x \<noteq> None"
  by (simp add: handleGenerateImage_def handleGenerateImage_issue_def handleGenerateImage_settle_def generateImageForScene_def Let_def handleStopGeneration_def
      split: image_outcome.splits option.splits)

lemma generateLoop_images_kept:
  "generatedImages st x \<noteq> None \<Longrightarrow> generatedImages (snd (generateLoop render env i cs st)) x \<noteq> None"
proof (induction cs arbitrary: i st)
  case Nil
  then show ?case by simp
next
  case (Cons sc rest)
  show ?case
  proof (cases "stopGenerationRef st")
    case True
    with Cons.prems show ?thesis by simp
  next
    case False
    let ?h = "handleGenerateImage render (id' sc) (outcome (env i)) (stop_in_flight (env i)) st"
    let ?st2 = "if stop_in_delay (env i) then handleStopGeneration (snd ?h) else snd ?h"
    from Cons.prems have "generatedImages (snd ?h) x \<noteq> None"
      by (rule handleGenerateImage_images_kept)
    then have "generatedImages ?st2 x \<noteq> None"
      by (simp add: handleStopGeneration_def)
    then have "generatedImages (snd (generateLoop render env (Suc i) rest ?st2)) x \<noteq> None"
      by (rule Cons.IH)
    with False show ?thesis
      by (simp add: generateLoop_step del: generateLoop.simps(2))
  qed
qed

text \<open>When no stop is requested and every call succeeds, every candidate gets an entry.\<close>

lemma generateLoop_images_success:
  assumes "\<not> stopGenerationRef st"
    and "\<forall>j<length cs. \<not> stop_in_flight (env (i + j)) \<and> \<not> stop_in_delay (env (i + j))"
    and "\<forall>j<length cs. \<exists>images. outcome (env (i + j)) = Generated images"
    and "\<forall>sc \<in> set cs. find (\<lambda>s. id' s = id' sc) (scenes render) = Some sc"
  shows "\<forall>sc \<in> set cs. generatedImages (snd (generateLoop render env i cs st)) (id' sc) \<noteq> None"
  using assms
proof (induction cs arbitrary: i st)
  case Nil
  show ?case by simp
next
  case (Cons sc rest)
  let ?h = "handleGenerateImage render (id' sc) (outcome (env i)) (stop_in_flight (env i)) st"
  let ?st2 = "if stop_in_delay (env i) then handleStopGeneration (snd ?h) else snd ?h"
  from Cons.prems(4) have found: "find (\<lambda>s. id' s = id' sc) (scenes render) = Some sc"
    by simp
  from Cons.prems(2) have quiet: "\<not> stop_in_flight (env i) \<and> \<not> stop_in_delay (env i)"
    by (metis add.right_neutral length_Cons zero_less_Suc)
  from Cons.prems(3) obtain images where ok: "outcome (env i) = Generated images"
    by (metis add.right_neutral length_Cons zero_less_Suc)
  from quiet Cons.prems(1) found have run: "\<not> stopGenerationRef ?st2"
    by (simp add: handleGenerateImage_stop)
  from found ok quiet have first: "generatedImages ?st2 (id' sc) \<noteq> None"
    by (simp add: handleGenerateImage_images)
  from Cons.prems(2)
  have "\<forall>j<length rest. \<not> stop_in_flight (env (Suc i + j)) \<and> \<not> stop_in_delay (env (Suc i + j))"
    by (metis Suc_less_eq add_Suc_right add_Suc length_Cons)
  moreover from Cons.prems(3)
  have "\<forall>j<length rest. \<exists>images. outcome (env (Suc i + j)) = Generated images"
    by (metis Suc_less_eq add_Suc_right add_Suc length_Cons)
  moreover from Cons.prems(4)
  have "\<forall>sc \<in> set rest. find (\<lambda>s. id' s = id' sc) (scenes render) = Some sc"
    by simp
  ultimately have
    "\<forall>sc \<in> set rest. generatedImages (snd (generateLoop render env (Suc i) rest ?st2)) (id' sc) \<noteq> None"
    using run Cons.IH by blast
  moreover from first
  have "generatedImages (snd (generateLoop render env (Suc i) rest ?st2)) (id' sc) \<noteq> None"
    by (rule generateLoop_images_kept)
  ultimately show ?case
    using Cons.prems(1) by (simp add: generateLoop_step del: generateLoop.simps(2))
qed


text \<open>
  The set of scenes being generated, seen at each await of the loop, when nothing is in
  flight at the start: the scene of the request while it is in flight, nothing during a
  delay.
\<close>

lemma generateLoop_status:
  assumes "generatingSceneIds st = {}"
    and "\<forall>sc \<in> set cs. find (\<lambda>s. id' s = id' sc) (scenes render) = Some sc"
  shows "(\<exists>n\<le>length cs.
            map (\<lambda>ob. (fst ob, generatingSceneIds (snd ob))) (fst (generateLoop render env i cs st))
              = status_trace render (take n cs) @ (if n < length cs then [(stopped_log, {})] else []))
         \<and> generatingSceneIds (snd (generateLoop render env i cs st)) = {}"
  using assms
proof (induction cs arbitrary: i st)
  case Nil
  then show ?case by (simp add: status_trace_def)
next
  case (Cons sc rest)
  let ?h = "handleGenerateImage render (id' sc) (outcome (env i)) (stop_in_flight (env i)) st"
  let ?st2 = "if stop_in_delay (env i) then handleStopGeneration (snd ?h) else snd ?h"
  let ?obs = "\<lambda>tr. map (\<lambda>ob. (fst ob, generatingSceneIds (snd ob))) tr"
  from Cons.prems(2) have found: "find (\<lambda>s. id' s = id' sc) (scenes render) = Some sc"
    by simp
  show ?case
  proof (cases "stopGenerationRef st")
    case True
    then have "?obs (fst (generateLoop render env i (sc # rest) st))
        = status_trace render (take 0 (sc # rest)) @ (if 0 < length (sc # rest) then [(stopped_log, {})] else [])"
      using Cons.prems(1) by (simp add: stopped_log_def status_trace_def)
    moreover from True Cons.prems(1) have "generatingSceneIds (snd (generateLoop render env i (sc # rest) st)) = {}"
      by simp
    ultimately show ?thesis by blast
  next
    case False
    from found Cons.prems(1) have idle: "generatingSceneIds (snd ?h) = {}"
      by (simp add: handleGenerateImage_status)
    then have "generatingSceneIds ?st2 = {}"
      by (simp add: handleStopGeneration_def)
    moreover from Cons.prems(2)
    have "\<forall>sc \<in> set rest. find (\<lambda>s. id' s = id' sc) (scenes render) = Some sc"
      by simp
    ultimately obtain n where n: "n \<le> length rest"
      and tr: "?obs (fst (generateLoop render env (Suc i) rest ?st2))
          = status_trace render (take n rest) @ (if n < length rest then [(stopped_log, {})] else [])"
      and fin: "generatingSceneIds (snd (generateLoop render env (Suc i) rest ?st2)) = {}"
      using Cons.IH by blast
    from False found Cons.prems(1) idle tr
    have "?obs (fst (generateLoop render env i (sc # rest) st))
        = status_trace render (take (Suc n) (sc # rest))
          @ (if Suc n < length (sc # rest) then [(stopped_log, {})] else [])"
      by (simp add: generateLoop_step handleGenerateImage_observations status_trace_def
          del: generateLoop.simps(2))
    moreover from n have "Suc n \<le> length (sc # rest)"
      by simp
    moreover from False fin have "generatingSceneIds (snd (generateLoop render env i (sc # rest) st)) = {}"
      by (simp add: generateLoop_step del: generateLoop.simps(2))
    ultimately show ?thesis by blast
  qed
qed

text \<open>An entry of \<open>generatedImages\<close> after the loop was there before or comes from a call that succeeded.\<close>

lemma generateLoop_images_origin:
  assumes "generatedImages (snd (generateLoop render env i cs st)) x \<noteq> None"
    and "\<forall>sc \<in> set cs. find (\<lambda>s. id' s = id' sc) (scenes render) = Some sc"
  shows "generatedImages st x \<noteq> None
         \<or> (\<exists>j<length cs. id' (cs ! j) = x \<and> (\<exists>images. outcome (env (i + j)) = Generated images))"
  using assms
proof (induction cs arbitrary: i st)
  case Nil
  then show ?case by simp
next
  case (Cons sc rest)
  let ?h = "handleGenerateImage render (id' sc) (outcome (env i)) (stop_in_flight (env i)) st"
  let ?st2 = "if stop_in_delay (env i) then handleStopGeneration (snd ?h) else snd ?h"
  from Cons.prems(2) have found: "find (\<lambda>s. id' s = id' sc) (scenes render) = Some sc"
    by simp
  show ?case
  proof (cases "stopGenerationRef st")
    case True
    with Cons.prems(1) show ?thesis by simp
  next
    case False
    with Cons.prems(1)
    have "generatedImages (snd (generateLoop render env (Suc i) rest ?st2)) x \<noteq> None"
      by (simp add: generateLoop_step del: generateLoop.simps(2))
    moreover from Cons.prems(2)
    have "\<forall>sc \<in> set rest. find (\<lambda>s. id' s = id' sc) (scenes render) = Some sc"
      by simp
    ultimately consider (now) "generatedImages ?st2 x \<noteq> None"
      | (later) j where "j < length rest" "id' (rest ! j) = x"
          "\<exists>images. outcome (env (Suc i + j)) = Generated images"
      using Cons.IH by blast
    then show ?thesis
    proof cases
      case now
      then have "generatedImages (snd ?h) x \<noteq> None"
        by (simp add: handleStopGeneration_def split: if_splits)
      with found have "generatedImages st x \<noteq> None
          \<or> (id' sc = x \<and> (\<exists>images. outcome (env i) = Generated images))"
        by (cases "outcome (env i)") (auto simp: handleGenerateImage_images split: if_splits)
      then show ?thesis
        by (metis add.right_neutral length_Cons nth_Cons_0 zero_less_Suc)
    next
      case later
      then have "Suc j < length (sc # rest) \<and> id' ((sc # rest) ! Suc j) = x
          \<and> (\<exists>images. outcome (env (i + Suc j)) = Generated images)"
        by simp
      then show ?thesis by blast
    qed
  qed
qed

text \<open>A call that the loop reaches and that succeeds leaves an entry.\<close>

lemma generateLoop_images_reached:
  assumes "\<not> stopGenerationRef st"
    and "\<forall>k<j. \<not> stop_in_flight (env (i + k)) \<and> \<not> stop_in_delay (env (i + k))"
    and "j < length cs"
    and "outcome (env (i + j)) = Generated images"
    and "\<forall>sc \<in> set cs. find (\<lambda>s. id' s = id' sc) (scenes render) = Some sc"
  shows "generatedImages (snd (generateLoop render env i cs st)) (id' (cs ! j)) \<noteq> None"
  using assms
proof (induction cs arbitrary: i j st)
  case Nil
  then show ?case by simp
next
  case (Cons sc rest)
  let ?h = "handleGenerateImage render (id' sc) (outcome (env i)) (stop_in_flight (env i)) st"
  let ?st2 = "if stop_in_delay (env i) then handleStopGeneration (snd ?h) else snd ?h"
  from Cons.prems(5) have found: "find (\<lambda>s. id' s = id' sc) (scenes render) = Some sc"
    by simp
  show ?case
  proof (cases j)
    case 0
    with Cons.prems(4) found have "generatedImages ?st2 (id' sc) \<noteq> None"
      by (simp add: handleGenerateImage_images handleStopGeneration_def)
    then have "generatedImages (snd (generateLoop render env (Suc i) rest ?st2)) (id' sc) \<noteq> None"
      by (rule generateLoop_images_kept)
    with Cons.prems(1) 0 show ?thesis
      by (simp add: generateLoop_step del: generateLoop.simps(2))
  next
    case (Suc j')
    with Cons.prems(2) have quiet: "\<not> stop_in_flight (env i) \<and> \<not> stop_in_delay (env i)"
      by (metis add.right_neutral zero_less_Suc)
    with Cons.prems(1) found have "\<not> stopGenerationRef ?st2"
      by (simp add: handleGenerateImage_stop)
    moreover from Cons.prems(2) Suc
    have "\<forall>k<j'. \<not> stop_in_flight (env (Suc i + k)) \<and> \<not> stop_in_delay (env (Suc i + k))"
      by (metis Suc_less_eq add_Suc_right add_Suc)
    moreover from Cons.prems(3) Suc have "j' < length rest"
      by simp
    moreover from Cons.prems(4) Suc have "outcome (env (Suc i + j')) = Generated images"
      by simp
    moreover from Cons.prems(5)
    have "\<forall>sc \<in> set rest. find (\<lambda>s. id' s = id' sc) (scenes render) = Some sc"
      by simp
    ultimately have "generatedImages (snd (generateLoop render env (Suc i) rest ?st2)) (id' (rest ! j')) \<noteq> None"
      by (rule Cons.IH)
    with Cons.prems(1) Suc show ?thesis
      by (simp add: generateLoop_step del: generateLoop.simps(2))
  qed
qed

lemma map_fst_status_trace: "map fst (status_trace render cs) = paced_requests render cs"
  by (induction cs) (simp_all add: status_trace_def paced_requests_def)

lemma generateLoop_status_quiet:
  assumes "generatingSceneIds st = {}"
    and "\<forall>sc \<in> set cs. find (\<lambda>s. id' s = id' sc) (scenes render) = Some sc"
    and "map fst (fst (generateLoop render env i cs st)) = paced_requests render cs"
  shows "map (\<lambda>ob. (fst ob, generatingSceneIds (snd ob))) (fst (generateLoop render env i cs st))
           = status_trace render cs"
proof -
  let ?obs = "map (\<lambda>ob. (fst ob, generatingSceneIds (snd ob))) (fst (generateLoop render env i cs st))"
  from generateLoop_status [OF assms(1,2)] obtain n where n: "n \<le> length cs"
    and tr: "?obs = status_trace render (take n cs) @ (if n < length cs then [(stopped_log, {})] else [])"
    by blast
  have "map fst ?obs = map fst (fst (generateLoop render env i cs st))"
    by (simp add: comp_def)
  with assms(3) tr
  have eq: "paced_requests render cs
      = paced_requests render (take n cs) @ (if n < length cs then [stopped_log] else [])"
    by (simp add: map_fst_status_trace split: if_splits)
  have "\<not> n < length cs"
  proof
    assume "n < length cs"
    with eq have "stopped_log \<in> set (paced_requests render cs)"
      by (metis in_set_conv_decomp)
    then show False
      by (simp add: stopped_log_not_paced)
  qed
  with n tr show ?thesis by simp
qed

text \<open>
  C1, as amended. For a store with distinct scene ids, the candidates of a batch are the
  scenes without an entry in \<open>generatedImages\<close>, in the order of the store. When every
  call succeeds and no stop is requested, the batch sends one request per candidate, in
  that order, each followed by the delay of 1000 ms, and nothing else: as many requests
  as there are candidates, which is the number of scenes when no scene has an entry yet.
  The requests do not overlap: when nothing is in flight at the start, the scene of a
  request is the only one being generated while the request is awaited, and none is
  during a delay. The stop message is not logged, the batch ends with \<open>isGeneratingAll\<close>
  and the stop signal reset, and every scene has an entry. The state of the stop signal
  before the batch plays no part: it is cleared on entry.
\<close>

theorem handleGenerateAll_all_candidates:
  assumes "distinct (map id' (scenes st))"
    and "\<forall>i<length (scenesToGenerate st). \<not> stop_in_flight (env i) \<and> \<not> stop_in_delay (env i)"
    and "\<forall>i<length (scenesToGenerate st). \<exists>images. outcome (env i) = Generated images"
  shows "scenesToGenerate st = filter (\<lambda>s. generatedImages st (id' s) = None) (scenes st)
       \<and> map fst (fst (handleGenerateAll env st)) = paced_requests st (scenesToGenerate st)
       \<and> requests (fst (handleGenerateAll env st))
           = map (\<lambda>sc. imageRequest sc (aspectRatio st) (characterStyle st)) (scenesToGenerate st)
       \<and> length (requests (fst (handleGenerateAll env st))) = length (scenesToGenerate st)
       \<and> ((\<forall>s \<in> set (scenes st). generatedImages st (id' s) = None)
            \<longrightarrow> length (requests (fst (handleGenerateAll env st))) = length (scenes st))
       \<and> (generatingSceneIds st = {}
            \<longrightarrow> map (\<lambda>ob. (fst ob, generatingSceneIds (snd ob))) (fst (handleGenerateAll env st))
                  = status_trace st (scenesToGenerate st))
       \<and> stopped_log \<notin> set (map fst (fst (handleGenerateAll env st)))
       \<and> \<not> isGeneratingAll (snd (handleGenerateAll env st))
       \<and> \<not> stopGenerationRef (snd (handleGenerateAll env st))
       \<and> (\<forall>s \<in> set (scenes st). generatedImages (snd (handleGenerateAll env st)) (id' s) \<noteq> None)"
proof -
  let ?cs = "scenesToGenerate st"
  let ?st0 = "st\<lparr>isGeneratingAll := True, stopGenerationRef := False\<rparr>"
  have found: "\<forall>sc \<in> set ?cs. find (\<lambda>s. id' s = id' sc) (scenes st) = Some sc"
    using assms(1) by (simp add: find_scenesToGenerate)
  have run: "\<not> stopGenerationRef ?st0"
    by simp
  from assms(2) have quiet: "\<forall>j<length ?cs. \<not> stop_in_flight (env (0 + j)) \<and> \<not> stop_in_delay (env (0 + j))"
    by simp
  then have quiet': "\<forall>j. Suc j < length ?cs \<longrightarrow> \<not> stop_in_flight (env (0 + j)) \<and> \<not> stop_in_delay (env (0 + j))"
    by (metis Suc_lessD)
  from assms(3) have ok: "\<forall>j<length ?cs. \<exists>images. outcome (env (0 + j)) = Generated images"
    by simp
  have events: "map fst (fst (handleGenerateAll env st)) = paced_requests st ?cs"
    unfolding handleGenerateAll_fst using run quiet' found by (rule generateLoop_events)
  then have reqs: "requests (fst (handleGenerateAll env st))
      = map (\<lambda>sc. imageRequest sc (aspectRatio st) (characterStyle st)) ?cs"
    by (rule requests_paced)
  have all: "?cs = scenes st" if "\<forall>s \<in> set (scenes st). generatedImages st (id' s) = None"
    using that by (simp add: scenesToGenerate_def)
  have status: "map (\<lambda>ob. (fst ob, generatingSceneIds (snd ob))) (fst (handleGenerateAll env st))
      = status_trace st ?cs" if "generatingSceneIds st = {}"
  proof -
    from that have "generatingSceneIds ?st0 = {}"
      by simp
    then show ?thesis
      using found events unfolding handleGenerateAll_fst by (rule generateLoop_status_quiet)
  qed
  have entries: "generatedImages (snd (handleGenerateAll env st)) (id' s) \<noteq> None"
    if s: "s \<in> set (scenes st)" for s
  proof (cases "generatedImages st (id' s) = None")
    case True
    with s have "s \<in> set ?cs"
      by (simp add: scenesToGenerate_def)
    with generateLoop_images_success [OF run quiet ok found]
    show ?thesis
      by (simp add: handleGenerateAll_snd)
  next
    case False
    then have "generatedImages ?st0 (id' s) \<noteq> None"
      by simp
    then have "generatedImages (snd (generateLoop st env 0 ?cs ?st0)) (id' s) \<noteq> None"
      by (rule generateLoop_images_kept)
    then show ?thesis
      by (simp add: handleGenerateAll_snd)
  qed
  show ?thesis
    using events reqs all status entries
    by (simp add: scenesToGenerate_def [symmetric] stopped_log_not_paced handleGenerateAll_snd)
qed


lemma example_scenesToGenerate: "scenesToGenerate example_state = example_scenes"
  by (simp add: scenesToGenerate_def example_state_def example_scenes_def)

theorem handleGenerateAll_all_candidates_witness:
  "distinct (map id' (scenes (example_state\<lparr>stopGenerationRef := True\<rparr>)))
   \<and> stopGenerationRef (example_state\<lparr>stopGenerationRef := True\<rparr>)
   \<and> map fst (fst (handleGenerateAll example_env_success (example_state\<lparr>stopGenerationRef := True\<rparr>)))
       = paced_requests example_state example_scenes
   \<and> length (requests (fst (handleGenerateAll example_env_success
                               (example_state\<lparr>stopGenerationRef := True\<rparr>)))) = 2
   \<and> \<not> stopGenerationRef (snd (handleGenerateAll example_env_success
                                  (example_state\<lparr>stopGenerationRef := True\<rparr>)))"
proof -
  let ?st = "example_state\<lparr>stopGenerationRef := True\<rparr>"
  have cs: "scenesToGenerate ?st = example_scenes"
    by (simp add: scenesToGenerate_def example_state_def example_scenes_def)
  have d: "distinct (map id' (scenes ?st))"
    by (simp add: example_state_def example_scenes_def)
  have q: "\<forall>i<length (scenesToGenerate ?st).
             \<not> stop_in_flight (example_env_success i) \<and> \<not> stop_in_delay (example_env_success i)"
    by (simp add: example_env_success_def)
  have ok: "\<forall>i<length (scenesToGenerate ?st). \<exists>images. outcome (example_env_success i) = Generated images"
    by (simp add: example_env_success_def)
  have p: "paced_requests ?st example_scenes = paced_requests example_state example_scenes"
    by (simp add: paced_requests_def)
  have l: "length example_scenes = 2"
    by (simp add: example_scenes_def)
  from handleGenerateAll_all_candidates [OF d q ok] cs d p l show ?thesis
    by simp
qed

text \<open>
  C1, as stated, fails: with two scenes of which one already has an image, every call
  succeeding and no stop requested, the batch makes one generation call, not two.
\<close>

theorem handleGenerateAll_skips_generated:
  "length (scenes example_state_partial) = 2
   \<and> outcome (example_env_success 0) = Generated [''AAAA'']
   \<and> \<not> stop_in_flight (example_env_success 0) \<and> \<not> stop_in_delay (example_env_success 0)
   \<and> length (requests (fst (handleGenerateAll example_env_success example_state_partial))) = 1
   \<and> \<not> isGeneratingAll (snd (handleGenerateAll example_env_success example_state_partial))"
  by (simp add: example_state_partial_def example_state_def example_scenes_def example_env_success_def
      handleGenerateAll_def scenesToGenerate_def handleGenerateImage_def handleGenerateImage_issue_def handleGenerateImage_settle_def generateImageForScene_def
      requests_def List.map_filter_simps)

lemma handleGenerateImage_stop_commutes:
  "find (\<lambda>s. id' s = sceneId) (scenes render) = Some sc \<Longrightarrow>
   snd (handleGenerateImage render sceneId result True st)
     = handleStopGeneration (snd (handleGenerateImage render sceneId result False st))"
  by (simp add: handleGenerateImage_def handleGenerateImage_issue_def handleGenerateImage_settle_def generateImageForScene_def Let_def handleStopGeneration_def
      split: image_outcome.splits)

text \<open>
  C2. When the first stop request of a batch comes at its \<open>k\<close>-th iteration (\<open>k = j + 1\<close>),
  either during the delay after the \<open>k\<close>-th generation or while that generation is in
  flight, and a candidate is left after the \<open>k\<close>-th, then exactly the first \<open>k\<close>
  candidates are requested, in order, and the loop stops at the next iteration boundary
  with the stop message; the batch ends with \<open>isGeneratingAll\<close> and the stop signal
  reset. The \<open>k\<close>-th generation runs to completion: its result is stored when the call
  succeeds and no scene is left marked as being generated; a stop request during a
  request in flight changes nothing of \<open>handleGenerateImage\<close> but the stop signal.
\<close>

theorem handleGenerateAll_stop_between:
  assumes "distinct (map id' (scenes st))"
    and "\<forall>i<j. \<not> stop_in_flight (env i) \<and> \<not> stop_in_delay (env i)"
    and "stop_in_flight (env j) \<or> stop_in_delay (env j)"
    and "Suc j < length (scenesToGenerate st)"
  shows "map fst (fst (handleGenerateAll env st))
           = paced_requests st (take (Suc j) (scenesToGenerate st)) @ [stopped_log]
       \<and> requests (fst (handleGenerateAll env st))
           = map (\<lambda>sc. imageRequest sc (aspectRatio st) (characterStyle st))
               (take (Suc j) (scenesToGenerate st))
       \<and> length (requests (fst (handleGenerateAll env st))) = Suc j
       \<and> \<not> isGeneratingAll (snd (handleGenerateAll env st))
       \<and> \<not> stopGenerationRef (snd (handleGenerateAll env st))
       \<and> (\<forall>images. outcome (env j) = Generated images
            \<longrightarrow> generatedImages (snd (handleGenerateAll env st)) (id' (scenesToGenerate st ! j)) \<noteq> None)
       \<and> (generatingSceneIds st = {} \<longrightarrow> generatingSceneIds (snd (handleGenerateAll env st)) = {})
       \<and> (\<forall>sceneId sc result s.
             find (\<lambda>x. id' x = sceneId) (scenes st) = Some sc
             \<longrightarrow> fst (handleGenerateImage st sceneId result True s)
                   = fst (handleGenerateImage st sceneId result False s)
                 \<and> snd (handleGenerateImage st sceneId result True s)
                   = handleStopGeneration (snd (handleGenerateImage st sceneId result False s)))"
proof -
  let ?cs = "scenesToGenerate st"
  let ?st0 = "st\<lparr>isGeneratingAll := True, stopGenerationRef := False\<rparr>"
  have found: "\<forall>sc \<in> set ?cs. find (\<lambda>s. id' s = id' sc) (scenes st) = Some sc"
    using assms(1) by (simp add: find_scenesToGenerate)
  have run: "\<not> stopGenerationRef ?st0"
    by simp
  from assms(2) have quiet: "\<forall>k<j. \<not> stop_in_flight (env (0 + k)) \<and> \<not> stop_in_delay (env (0 + k))"
    by simp
  from assms(3) have stop: "stop_in_flight (env (0 + j)) \<or> stop_in_delay (env (0 + j))"
    by simp
  have events: "map fst (fst (handleGenerateAll env st))
      = paced_requests st (take (Suc j) ?cs) @ [stopped_log]"
    unfolding handleGenerateAll_fst using run quiet stop assms(4) found
    by (rule generateLoop_stop_events)
  then have reqs: "requests (fst (handleGenerateAll env st))
      = map (\<lambda>sc. imageRequest sc (aspectRatio st) (characterStyle st)) (take (Suc j) ?cs)"
    by (rule requests_paced_stopped)
  from assms(4) have len: "length (take (Suc j) ?cs) = Suc j"
    by simp
  have stored: "generatedImages (snd (handleGenerateAll env st)) (id' (?cs ! j)) \<noteq> None"
    if "outcome (env j) = Generated images" for images
  proof -
    from assms(4) have "j < length ?cs"
      by simp
    moreover from that have "outcome (env (0 + j)) = Generated images"
      by simp
    ultimately have "generatedImages (snd (generateLoop st env 0 ?cs ?st0)) (id' (?cs ! j)) \<noteq> None"
      using run quiet found generateLoop_images_reached by blast
    then show ?thesis
      by (simp add: handleGenerateAll_snd)
  qed
  have idle: "generatingSceneIds (snd (handleGenerateAll env st)) = {}"
    if "generatingSceneIds st = {}"
  proof -
    from that have "generatingSceneIds ?st0 = {}"
      by simp
    from generateLoop_status [OF this found]
    show ?thesis
      by (simp add: handleGenerateAll_snd)
  qed
  show ?thesis
    using events reqs len stored idle
    by (simp add: handleGenerateAll_snd handleGenerateImage_observations
        handleGenerateImage_stop_commutes)
qed

theorem handleGenerateAll_stop_between_witness:
  "distinct (map id' (scenes example_state))
   \<and> stop_in_delay (example_env_stop_in_delay 0)
   \<and> stop_in_flight (example_env_stop_in_flight 0)
   \<and> Suc 0 < length (scenesToGenerate example_state)
   \<and> map fst (fst (handleGenerateAll example_env_stop_in_delay example_state))
       = paced_requests example_state (take 1 example_scenes) @ [stopped_log]
   \<and> length (requests (fst (handleGenerateAll example_env_stop_in_delay example_state))) = 1
   \<and> length (requests (fst (handleGenerateAll example_env_stop_in_flight example_state))) = 1
   \<and> generatedImages (snd (handleGenerateAll example_env_stop_in_flight example_state)) ''a'' \<noteq> None"
proof -
  have d: "distinct (map id' (scenes example_state))"
    by (simp add: example_state_def example_scenes_def)
  have n: "Suc 0 < length (scenesToGenerate example_state)"
    by (simp add: example_scenesToGenerate example_scenes_def)
  have s1: "stop_in_flight (example_env_stop_in_delay 0) \<or> stop_in_delay (example_env_stop_in_delay 0)"
    and s2: "stop_in_flight (example_env_stop_in_flight 0) \<or> stop_in_delay (example_env_stop_in_flight 0)"
    by (simp_all add: example_env_stop_in_delay_def example_env_stop_in_flight_def)
  have o: "outcome (example_env_stop_in_flight 0) = Generated [''AAAA'']"
    by (simp add: example_env_stop_in_flight_def)
  have a: "id' (scenesToGenerate example_state ! 0) = ''a''"
    by (simp add: example_scenesToGenerate example_scenes_def)
  from handleGenerateAll_stop_between [of example_state 0 example_env_stop_in_delay]
       handleGenerateAll_stop_between [of example_state 0 example_env_stop_in_flight]
       s1 s2 o a d n
  show ?thesis
    by (simp add: example_scenesToGenerate example_env_stop_in_delay_def
        example_env_stop_in_flight_def)
qed

text \<open>
  A stop requested during the last iteration of the loop is never read: when no stop is
  requested before the last iteration, every candidate is requested and the stop message
  is not logged, whatever happens in the last iteration.
\<close>

lemma handleGenerateAll_stop_in_last_iteration:
  assumes "distinct (map id' (scenes st))"
    and "\<forall>i. Suc i < length (scenesToGenerate st)
           \<longrightarrow> \<not> stop_in_flight (env i) \<and> \<not> stop_in_delay (env i)"
  shows "map fst (fst (handleGenerateAll env st)) = paced_requests st (scenesToGenerate st)"
proof -
  have "\<forall>sc \<in> set (scenesToGenerate st). find (\<lambda>s. id' s = id' sc) (scenes st) = Some sc"
    using assms(1) by (simp add: find_scenesToGenerate)
  moreover have "\<not> stopGenerationRef (st\<lparr>isGeneratingAll := True, stopGenerationRef := False\<rparr>)"
    by simp
  moreover from assms(2)
  have "\<forall>j. Suc j < length (scenesToGenerate st)
          \<longrightarrow> \<not> stop_in_flight (env (0 + j)) \<and> \<not> stop_in_delay (env (0 + j))"
    by simp
  ultimately show ?thesis
    unfolding handleGenerateAll_fst by (simp add: generateLoop_events)
qed

lemma distinct_scenesToGenerate:
  "distinct (map id' (scenes st)) \<Longrightarrow> distinct (map id' (scenesToGenerate st))"
  by (simp add: scenesToGenerate_def distinct_map_filter)

lemma scenesToGenerate_no_entry:
  "j < length (scenesToGenerate st) \<Longrightarrow> generatedImages st (id' (scenesToGenerate st ! j)) = None"
  using nth_mem [of j "scenesToGenerate st"] by (simp add: scenesToGenerate_def)

lemma handleGenerateImage_scenes:
  "scenes (snd (handleGenerateImage render sceneId result stop st)) = scenes st"
  by (simp add: handleGenerateImage_def handleGenerateImage_issue_def handleGenerateImage_settle_def
      generateImageForScene_def Let_def handleStopGeneration_def
      split: image_outcome.splits option.splits)

text \<open>The text of a scene number reads back as the number, and has no leading zero.\<close>

lemma digit_value_char_of: "d < 10 \<Longrightarrow> digit_value (char_of (48 + d)) = Some d"
  by (simp add: digit_value_def)

lemma read_digits_append:
  "read_digits acc (xs @ ys) =
     (case read_digits acc xs of None \<Rightarrow> None | Some a \<Rightarrow> read_digits a ys)"
  by (induction xs arbitrary: acc) (simp_all split: option.splits)

lemma digits_not_empty: "digits n \<noteq> []"
  by (subst digits.simps) simp

lemma read_digits_digits: "read_digits 0 (digits n) = Some n"
proof (induction n rule: digits.induct)
  case (1 n)
  show ?case
  proof (cases "n < 10")
    case True
    then show ?thesis
      by (subst digits.simps) (simp add: digit_value_char_of)
  next
    case False
    with 1 have "read_digits 0 (digits (n div 10)) = Some (n div 10)"
      by simp
    with False show ?thesis
      by (subst digits.simps) (simp add: read_digits_append digit_value_char_of)
  qed
qed

lemma hd_digits: "hd (digits n) = CHR ''0'' \<Longrightarrow> n = 0"
proof (induction n rule: digits.induct)
  case (1 n)
  show ?case
  proof (cases "n < 10")
    case True
    from "1.prems" True have "digit_value (hd (digits n)) = Some 0"
      by (simp add: digit_value_def)
    moreover from True have "hd (digits n) = char_of (48 + n)"
      by (subst digits.simps) simp
    ultimately show ?thesis
      using True by (simp add: digit_value_char_of)
  next
    case False
    then have "hd (digits n) = hd (digits (n div 10))"
      by (subst digits.simps) (simp add: digits_not_empty)
    with "1.prems" False 1 have "n div 10 = 0"
      by simp
    with False show ?thesis
      by simp
  qed
qed

lemma decimal_value_number_text: "decimal_value (number_text n) = Some (unat n)"
  by (simp add: decimal_value_def number_text_def digits_not_empty read_digits_digits)

lemma hd_number_text: "hd (number_text n) = CHR ''0'' \<Longrightarrow> n = 0"
  using hd_digits [of "unat n"] by (simp add: number_text_def unsigned_eq_0_iff)

text \<open>
  C3. When the generation of a scene of the store fails, \<open>generatedImages\<close> is left as it
  was (an earlier entry of the scene is kept), and the scene is no longer marked as being
  generated. The error set has the title \<open>Failed to generate image for scene n.\<close> and
  the message \<open>Image generation failed for scene n: m\<close>, where \<open>n\<close> is the scene's
  number in decimal digits (the text reads back as the number and has no leading zero)
  and \<open>m\<close> is the message of the failure, or \<open>An unknown error occurred\<close> when the
  thrown value is not an \<open>Error\<close>; the page shows this error whenever the scene list is
  not empty. In a batch over a store with distinct ids in which no
  stop is requested, failures do not end the loop: every candidate is requested, in
  order, whatever the outcomes of the calls are, and a candidate whose call fails has no
  entry at the end.
\<close>

theorem generation_failure_is_local:
  "(find (\<lambda>s. id' s = sceneId) (scenes render) = Some sc \<longrightarrow>
      generatedImages (snd (handleGenerateImage render sceneId (Rejected e) stop st'))
        = generatedImages st'
      \<and> error (snd (handleGenerateImage render sceneId (Rejected e) stop st'))
        = Some [''Failed to generate image for scene '' @ number_text (scene sc) @ ''.'',
                ''Image generation failed for scene '' @ number_text (scene sc) @ '': ''
                  @ caught_message e]
      \<and> decimal_value (number_text (scene sc)) = Some (unat (scene sc))
      \<and> (hd (number_text (scene sc)) = CHR ''0'' \<longrightarrow> scene sc = 0)
      \<and> caught_message (Some message) = message
      \<and> caught_message None = ''An unknown error occurred''
      \<and> (scenes st' \<noteq> []
           \<longrightarrow> ErrorModal (snd (handleGenerateImage render sceneId (Rejected e) stop st'))
                 = error (snd (handleGenerateImage render sceneId (Rejected e) stop st')))
      \<and> sceneId \<notin> generatingSceneIds (snd (handleGenerateImage render sceneId (Rejected e) stop st')))
   \<and> (distinct (map id' (scenes st))
       \<and> (\<forall>i<length (scenesToGenerate st). \<not> stop_in_flight (env i) \<and> \<not> stop_in_delay (env i))
      \<longrightarrow> map fst (fst (handleGenerateAll env st)) = paced_requests st (scenesToGenerate st)
        \<and> length (requests (fst (handleGenerateAll env st))) = length (scenesToGenerate st)
        \<and> stopped_log \<notin> set (map fst (fst (handleGenerateAll env st)))
        \<and> (\<forall>j<length (scenesToGenerate st). \<forall>e'. outcome (env j) = Rejected e'
              \<longrightarrow> generatedImages (snd (handleGenerateAll env st)) (id' (scenesToGenerate st ! j)) = None))"
proof (intro conjI impI)
  assume "find (\<lambda>s. id' s = sceneId) (scenes render) = Some sc"
  then show "generatedImages (snd (handleGenerateImage render sceneId (Rejected e) stop st'))
        = generatedImages st'"
    and "error (snd (handleGenerateImage render sceneId (Rejected e) stop st'))
        = Some [''Failed to generate image for scene '' @ number_text (scene sc) @ ''.'',
                ''Image generation failed for scene '' @ number_text (scene sc) @ '': ''
                  @ caught_message e]"
    and "sceneId \<notin> generatingSceneIds (snd (handleGenerateImage render sceneId (Rejected e) stop st'))"
    by (simp_all add: handleGenerateImage_images handleGenerateImage_error handleGenerateImage_status)
  show "decimal_value (number_text (scene sc)) = Some (unat (scene sc))"
    by (rule decimal_value_number_text)
  show "caught_message (Some message) = message"
    and "caught_message None = ''An unknown error occurred''"
    by (simp_all add: caught_message_def)
next
  assume "hd (number_text (scene sc)) = CHR ''0''"
  then show "scene sc = 0"
    by (rule hd_number_text)
next
  assume "scenes st' \<noteq> []"
  then have "scenes (snd (handleGenerateImage render sceneId (Rejected e) stop st')) \<noteq> []"
    by (simp add: handleGenerateImage_scenes)
  then show "ErrorModal (snd (handleGenerateImage render sceneId (Rejected e) stop st'))
      = error (snd (handleGenerateImage render sceneId (Rejected e) stop st'))"
    by (simp add: ErrorModal_def)
next
  let ?cs = "scenesToGenerate st"
  let ?st0 = "st\<lparr>isGeneratingAll := True, stopGenerationRef := False\<rparr>"
  assume a: "distinct (map id' (scenes st))
       \<and> (\<forall>i<length (scenesToGenerate st). \<not> stop_in_flight (env i) \<and> \<not> stop_in_delay (env i))"
  then have found: "\<forall>sc \<in> set ?cs. find (\<lambda>s. id' s = id' sc) (scenes st) = Some sc"
    by (simp add: find_scenesToGenerate)
  have run: "\<not> stopGenerationRef ?st0"
    by simp
  from a have quiet: "\<forall>j. Suc j < length ?cs \<longrightarrow> \<not> stop_in_flight (env (0 + j)) \<and> \<not> stop_in_delay (env (0 + j))"
    by (simp add: Suc_lessD)
  show events: "map fst (fst (handleGenerateAll env st)) = paced_requests st ?cs"
    unfolding handleGenerateAll_fst using run quiet found by (rule generateLoop_events)
  from requests_paced [OF events]
  show "length (requests (fst (handleGenerateAll env st))) = length ?cs"
    by simp
  from events show "stopped_log \<notin> set (map fst (fst (handleGenerateAll env st)))"
    by (simp add: stopped_log_not_paced)
  show "\<forall>j<length ?cs. \<forall>e'. outcome (env j) = Rejected e'
          \<longrightarrow> generatedImages (snd (handleGenerateAll env st)) (id' (?cs ! j)) = None"
  proof (intro allI impI)
    fix j e'
    assume j: "j < length ?cs" and rejected: "outcome (env j) = Rejected e'"
    show "generatedImages (snd (handleGenerateAll env st)) (id' (?cs ! j)) = None"
    proof (rule ccontr)
      assume "generatedImages (snd (handleGenerateAll env st)) (id' (?cs ! j)) \<noteq> None"
      then have "generatedImages (snd (generateLoop st env 0 ?cs ?st0)) (id' (?cs ! j)) \<noteq> None"
        by (simp add: handleGenerateAll_snd)
      from generateLoop_images_origin [OF this found]
      have "generatedImages st (id' (?cs ! j)) \<noteq> None
          \<or> (\<exists>j'<length ?cs. id' (?cs ! j') = id' (?cs ! j) \<and> (\<exists>images. outcome (env j') = Generated images))"
        by simp
      with j have "\<exists>j'<length ?cs. id' (?cs ! j') = id' (?cs ! j) \<and> (\<exists>images. outcome (env j') = Generated images)"
        by (simp add: scenesToGenerate_no_entry)
      then obtain j' images where j': "j' < length ?cs" and same: "id' (?cs ! j') = id' (?cs ! j)"
        and generated: "outcome (env j') = Generated images"
        by blast
      from a have "distinct (map id' ?cs)"
        by (simp add: distinct_scenesToGenerate)
      with j j' same have "j' = j"
        by (auto simp: distinct_conv_nth)
      with generated rejected show False
        by simp
    qed
  qed
qed

theorem generation_failure_is_local_witness:
  "find (\<lambda>s. id' s = ''c'')
       (scenes (example_state\<lparr>scenes := [\<lparr>id' = ''c'', scene = 4096, script = ''The end.'',
                                             prompt = ''A sunset''\<rparr>]\<rparr>))
     = Some \<lparr>id' = ''c'', scene = 4096, script = ''The end.'', prompt = ''A sunset''\<rparr>
   \<and> error (snd (handleGenerateImage
        (example_state\<lparr>scenes := [\<lparr>id' = ''c'', scene = 4096, script = ''The end.'',
                                      prompt = ''A sunset''\<rparr>]\<rparr>)
        ''c'' (Rejected (Some ''quota exceeded'')) False example_state_partial))
       = Some [''Failed to generate image for scene 4096.'',
               ''Image generation failed for scene 4096: quota exceeded'']
   \<and> generatedImages (snd (handleGenerateImage
        (example_state\<lparr>scenes := [\<lparr>id' = ''c'', scene = 4096, script = ''The end.'',
                                      prompt = ''A sunset''\<rparr>]\<rparr>)
        ''c'' (Rejected (Some ''quota exceeded'')) False example_state_partial))
       = generatedImages example_state_partial
   \<and> ErrorModal (snd (handleGenerateImage
        (example_state\<lparr>scenes := [\<lparr>id' = ''c'', scene = 4096, script = ''The end.'',
                                      prompt = ''A sunset''\<rparr>]\<rparr>)
        ''c'' (Rejected (Some ''quota exceeded'')) False example_state_partial))
       = Some [''Failed to generate image for scene 4096.'',
               ''Image generation failed for scene 4096: quota exceeded'']
   \<and> decimal_value ''4096'' = Some 4096
   \<and> length (requests (fst (handleGenerateAll example_env_failure example_state))) = 2
   \<and> generatedImages (snd (handleGenerateAll example_env_failure example_state)) ''b'' = None
   \<and> generatedImages (snd (handleGenerateAll example_env_failure example_state)) ''a''
       = Some [''data:image/jpeg;base64,u1'']
   \<and> generatingSceneIds (snd (handleGenerateAll example_env_failure example_state)) = {}
   \<and> error (snd (handleGenerateAll example_env_failure example_state))
       = Some [''Failed to generate image for scene 2.'',
               ''Image generation failed for scene 2: quota exceeded'']"
proof -
  let ?render = "example_state\<lparr>scenes := [\<lparr>id' = ''c'', scene = 4096, script = ''The end.'',
                                             prompt = ''A sunset''\<rparr>]\<rparr>"
  let ?c = "\<lparr>id' = ''c'', scene = 4096, script = ''The end.'', prompt = ''A sunset''\<rparr>"
  have f: "find (\<lambda>s. id' s = ''c'') (scenes ?render) = Some ?c"
    by simp
  have nt: "number_text 4096 = ''4096''" and two: "number_text 2 = ''2''"
    by code_simp+
  have un: "unat (4096 :: 53 word) = 4096"
    by simp
  have cs: "scenesToGenerate example_state = example_scenes"
    by (simp add: scenesToGenerate_def example_state_def example_scenes_def)
  have d: "distinct (map id' (scenes example_state))"
    by (simp add: example_state_def example_scenes_def)
  have q: "\<forall>i<length (scenesToGenerate example_state).
             \<not> stop_in_flight (example_env_failure i) \<and> \<not> stop_in_delay (example_env_failure i)"
    by (simp add: example_env_failure_def)
  have r: "outcome (example_env_failure 1) = Rejected (Some ''quota exceeded'')"
    by (simp add: example_env_failure_def)
  have l: "length example_scenes = 2" and b: "id' (example_scenes ! 1) = ''b''"
    by (simp_all add: example_scenes_def)
  note single = generation_failure_is_local
      [of "''c''" ?render ?c "Some ''quota exceeded''" False example_state_partial
          "''quota exceeded''" example_state example_env_failure]
  from single f nt un have 1: "error (snd (handleGenerateImage ?render ''c''
        (Rejected (Some ''quota exceeded'')) False example_state_partial))
       = Some [''Failed to generate image for scene 4096.'',
               ''Image generation failed for scene 4096: quota exceeded'']"
    and 2: "generatedImages (snd (handleGenerateImage ?render ''c''
        (Rejected (Some ''quota exceeded'')) False example_state_partial))
       = generatedImages example_state_partial"
    and 0: "decimal_value ''4096'' = Some 4096"
    by simp_all
  have ne: "scenes example_state_partial \<noteq> []"
    by (simp add: example_state_partial_def example_state_def example_scenes_def)
  from single f ne 1 have 8: "ErrorModal (snd (handleGenerateImage ?render ''c''
        (Rejected (Some ''quota exceeded'')) False example_state_partial))
       = Some [''Failed to generate image for scene 4096.'',
               ''Image generation failed for scene 4096: quota exceeded'']"
    by simp
  from single d q cs l have 3: "length (requests (fst (handleGenerateAll example_env_failure example_state))) = 2"
    by simp
  from single d q cs l r b
  have 4: "generatedImages (snd (handleGenerateAll example_env_failure example_state)) ''b'' = None"
    by (metis One_nat_def lessI numeral_2_eq_2)
  have 5: "generatedImages (snd (handleGenerateAll example_env_failure example_state)) ''a''
       = Some [''data:image/jpeg;base64,u1'']"
    and 6: "generatingSceneIds (snd (handleGenerateAll example_env_failure example_state)) = {}"
    and 7: "error (snd (handleGenerateAll example_env_failure example_state))
       = Some [''Failed to generate image for scene 2.'',
               ''Image generation failed for scene 2: quota exceeded'']"
    by (simp_all add: example_state_def example_scenes_def example_env_failure_def
        handleGenerateAll_def scenesToGenerate_def handleGenerateImage_def handleGenerateImage_issue_def
        handleGenerateImage_settle_def generateImageForScene_def
        dataUrl_def caught_message_def two)
  from f 1 2 8 0 3 4 5 6 7 show ?thesis
    by simp
qed




end
